theory Spec2Isabelle
  imports Main "HOL-Library.AList"
begin

section \<open>JavaScript values\<close>

text \<open>
  \<^verbatim>\<open>build-tokenlist.js\<close> is dynamically typed: the configuration table, the upstream
  records and the token list are all plain objects, and the program reads them with
  property accesses that may find nothing (\<^verbatim>\<open>undefined\<close>) or may find a member
  inherited from \<^verbatim>\<open>Object.prototype\<close>. The model therefore works on a universe of
  JavaScript values.

  \<^item> An object is the list of its own properties, in insertion order, one entry per key.
  \<^item> A number is \<open>JNum n\<close>, an integer that a double holds exactly (the program's own
    numbers are 8453, 56, 1, 137, 18, 1 and 0), or one of the three numbers that behave
    differently when tested or written: \<^verbatim>\<open>-0\<close>, \<^verbatim>\<open>Infinity\<close> and
    \<^verbatim>\<open>-Infinity\<close>, which \<^verbatim>\<open>JSON.parse\<close> gives for \<^verbatim>\<open>-0\<close>, \<^verbatim>\<open>1e400\<close> and
    \<^verbatim>\<open>-1e400\<close>. A finite number with a fractional part is not a value of the model.
  \<^item> A string is a list of characters, read as the bytes of its UTF-8 encoding.
  \<^item> \<open>JBuiltin k\<close> is the member that a plain object inherits under the key \<open>k\<close> from
    \<^verbatim>\<open>Object.prototype\<close>: a built-in function, or for \<^verbatim>\<open>__proto__\<close> the
    prototype object itself.

  What the JavaScript library does outside the reach of this program (the Unicode tables
  of upper-casing, the built-in members of strings, arrays and functions, the printing of
  large numbers) is not defined here. Each such part is a constant of which nothing is
  known, so that no statement about it can be derived.
\<close>

datatype jsval =
    JUndefined
  | JNull
  | JBool bool
  | JNum int
  | JNegZero
  | JInfinity
  | JNegInfinity
  | JStr string
  | JArr "jsval list"
  | JObj "(string \<times> jsval) list"
  | JBuiltin string

datatype js_error = TypeError | WriteError

definition then_ok :: "js_error + 'a \<Rightarrow> ('a \<Rightarrow> js_error + 'b) \<Rightarrow> js_error + 'b" where
  "then_ok r f = (case r of Inl e \<Rightarrow> Inl e | Inr v \<Rightarrow> f v)"

text \<open>ToBoolean: what \<^verbatim>\<open>!x\<close> and \<^verbatim>\<open>x || y\<close> test.\<close>

fun truthy :: "jsval \<Rightarrow> bool" where
  "truthy JUndefined = False"
| "truthy JNull = False"
| "truthy (JBool b) = b"
| "truthy (JNum n) = (n \<noteq> 0)"
| "truthy JNegZero = False"
| "truthy JInfinity = True"
| "truthy JNegInfinity = True"
| "truthy (JStr s) = (s \<noteq> [])"
| "truthy (JArr xs) = True"
| "truthy (JObj ps) = True"
| "truthy (JBuiltin k) = True"

fun nullish :: "jsval \<Rightarrow> bool" where
  "nullish JUndefined = True"
| "nullish JNull = True"
| "nullish v = False"

text \<open>The keys every plain object inherits from \<^verbatim>\<open>Object.prototype\<close>.\<close>

definition Object_prototype_keys :: "string list" where
  "Object_prototype_keys =
     [''constructor'', ''__defineGetter__'', ''__defineSetter__'', ''hasOwnProperty'',
      ''__lookupGetter__'', ''__lookupSetter__'', ''isPrototypeOf'', ''propertyIsEnumerable'',
      ''toString'', ''valueOf'', ''__proto__'', ''toLocaleString'']"

text \<open>
  The \<^verbatim>\<open>name\<close> of an inherited function: \<^verbatim>\<open>constructor\<close> is the function
  \<^verbatim>\<open>Object\<close>, every other one is named by its key.
\<close>

definition builtin_name :: "string \<Rightarrow> string" where
  "builtin_name k = (if k = ''constructor'' then ''Object'' else k)"

text \<open>
  Own properties of the values the program builds or receives. A plain object has the
  properties of its list. An inherited function has the own property \<^verbatim>\<open>name\<close>; the
  prototype object reads \<^verbatim>\<open>null\<close> under \<^verbatim>\<open>__proto__\<close>.
\<close>

fun own_property :: "jsval \<Rightarrow> string \<Rightarrow> jsval option" where
  "own_property (JObj ps) k = map_of ps k"
| "own_property (JBuiltin f) k =
     (if f = ''__proto__'' then (if k = ''__proto__'' then Some JNull else None)
      else if k = ''name'' then Some (JStr (builtin_name f)) else None)"
| "own_property v k = None"

text \<open>
  The keys the program reads: those of its property accesses, the four platform slugs of
  the table, and \<^verbatim>\<open>undefined\<close> (the key that a missing slug turns into). No string,
  number, boolean, array or function has a built-in member under any of them, apart
  from the \<^verbatim>\<open>name\<close> of a function, which is an own property above.
\<close>

definition program_keys :: "string list" where
  "program_keys =
     [''platforms'', ''symbol'', ''name'', ''chainId'', ''coingeckoPlatform'', ''decimals'',
      ''base'', ''binance-smart-chain'', ''ethereum'', ''polygon-pos'', ''undefined'']"

text \<open>
  The built-in members of the values that are not plain objects (\<^verbatim>\<open>length\<close>, indices
  and methods of strings and arrays, the members of functions and of the number and
  boolean wrappers): not defined here.
\<close>

definition builtin_member :: "jsval \<Rightarrow> string \<Rightarrow> jsval" where
  "builtin_member = (SOME member. True)"

fun plain_object :: "jsval \<Rightarrow> bool" where
  "plain_object (JObj ps) = True"
| "plain_object v = False"

text \<open>
  The property read \<^verbatim>\<open>v[k]\<close> (and \<^verbatim>\<open>v.k\<close>): a TypeError on \<^verbatim>\<open>undefined\<close> and
  \<^verbatim>\<open>null\<close>, otherwise the own property. Failing that, a plain object gives the member
  inherited from \<^verbatim>\<open>Object.prototype\<close> or else \<^verbatim>\<open>undefined\<close>; any other value
  gives \<^verbatim>\<open>undefined\<close> under a key the program reads, and its built-in member under
  any other key.
\<close>

definition js_get :: "jsval \<Rightarrow> string \<Rightarrow> js_error + jsval" where
  "js_get v k =
     (if nullish v then Inl TypeError
      else Inr (case own_property v k of
                  Some x \<Rightarrow> x
                | None \<Rightarrow>
                    if plain_object v
                    then (if k \<in> set Object_prototype_keys then JBuiltin k else JUndefined)
                    else if k \<in> set program_keys then JUndefined
                    else builtin_member v k))"

subsection \<open>ToString\<close>

fun digit_char :: "nat \<Rightarrow> char" where
  "digit_char n = char_of (48 + n)"

function show_nat :: "nat \<Rightarrow> string" where
  "show_nat n = (if n < 10 then [digit_char n] else show_nat (n div 10) @ [digit_char (n mod 10)])"
  by pat_completeness auto
termination
  by (relation "measure id") auto

definition show_int :: "int \<Rightarrow> string" where
  "show_int i = (if i < 0 then CHR ''-'' # show_nat (nat (- i)) else show_nat (nat i))"

fun join_comma :: "string list \<Rightarrow> string" where
  "join_comma [] = []"
| "join_comma [s] = s"
| "join_comma (s # t # ss) = s @ '','' @ join_comma (t # ss)"

text \<open>
  How a number beyond the safe integers is printed (rounded digits, exponent form from
  \<^verbatim>\<open>1e21\<close>): not defined here.
\<close>

definition number_string :: "int \<Rightarrow> string" where
  "number_string = (SOME print. True)"

text \<open>
  ToString, as a template literal \<^verbatim>\<open>${x}\<close> and a computed key \<^verbatim>\<open>v[x]\<close> apply it.
  A safe integer is printed in decimal digits. An array is its elements joined by commas,
  \<^verbatim>\<open>undefined\<close> and \<^verbatim>\<open>null\<close> elements giving the empty string.
\<close>

fun to_string :: "jsval \<Rightarrow> string" and to_string_elems :: "jsval list \<Rightarrow> string list" where
  "to_string JUndefined = ''undefined''"
| "to_string JNull = ''null''"
| "to_string (JBool b) = (if b then ''true'' else ''false'')"
| "to_string (JNum n) = (if \<bar>n\<bar> \<le> 9007199254740991 then show_int n else number_string n)"
| "to_string JNegZero = ''0''"
| "to_string JInfinity = ''Infinity''"
| "to_string JNegInfinity = ''-Infinity''"
| "to_string (JStr s) = s"
| "to_string (JArr xs) = join_comma (to_string_elems xs)"
| "to_string (JObj ps) = ''[object Object]''"
| "to_string (JBuiltin k) =
     (if k = ''__proto__'' then ''[object Object]''
      else ''function '' @ builtin_name k @ ''() { [native code] }'')"
| "to_string_elems [] = []"
| "to_string_elems (x # xs) = (if nullish x then [] else to_string x) # to_string_elems xs"

subsection \<open>String.prototype.toUpperCase\<close>

text \<open>
  On a string of ASCII characters upper-casing moves the letters \<^verbatim>\<open>a\<close> to \<^verbatim>\<open>z\<close>
  to \<^verbatim>\<open>A\<close> to \<^verbatim>\<open>Z\<close> and leaves every other character. On any other string it
  follows the Unicode tables (which give \<^verbatim>\<open>SS\<close> for the sharp s, for one): not
  defined here.
\<close>

definition upper_char :: "char \<Rightarrow> char" where
  "upper_char c = (let n = (of_char c :: nat) in if 97 \<le> n \<and> n \<le> 122 then char_of (n - 32) else c)"

definition is_ascii :: "char \<Rightarrow> bool" where
  "is_ascii c = ((of_char c :: nat) < 128)"

definition unicode_toUpperCase :: "string \<Rightarrow> string" where
  "unicode_toUpperCase = (SOME upper. True)"

definition toUpperCase :: "string \<Rightarrow> string" where
  "toUpperCase s = (if list_all is_ascii s then map upper_char s else unicode_toUpperCase s)"

section \<open>The configuration table\<close>

definition CHAIN_CONFIG :: jsval where
  "CHAIN_CONFIG = JObj
     [(''base'', JObj
         [(''chainId'', JNum 8453),
          (''coingeckoPlatform'', JStr ''base''),
          (''name'', JStr ''Base Token List''),
          (''decimals'', JNum 18)]),
      (''bsc'', JObj
         [(''chainId'', JNum 56),
          (''coingeckoPlatform'', JStr ''binance-smart-chain''),
          (''name'', JStr ''BSC Token List''),
          (''decimals'', JNum 18)]),
      (''ethereum'', JObj
         [(''chainId'', JNum 1),
          (''coingeckoPlatform'', JStr ''ethereum''),
          (''name'', JStr ''Ethereum Token List''),
          (''decimals'', JNum 18)]),
      (''polygon'', JObj
         [(''chainId'', JNum 137),
          (''coingeckoPlatform'', JStr ''polygon-pos''),
          (''name'', JStr ''Polygon Token List''),
          (''decimals'', JNum 18)])]"

text \<open>The supported network keys are the own keys of the table.\<close>

fun own_keys :: "jsval \<Rightarrow> string list" where
  "own_keys (JObj ps) = map fst ps"
| "own_keys v = []"

definition supported_keys :: "string list" where
  "supported_keys = own_keys CHAIN_CONFIG"

section \<open>The transformer\<close>

text \<open>\<^verbatim>\<open>item.platforms?.[chainCfg.coingeckoPlatform]\<close>\<close>

definition lookup_address :: "jsval \<Rightarrow> jsval \<Rightarrow> js_error + jsval" where
  "lookup_address item chainCfg =
     then_ok (js_get item ''platforms'') (\<lambda>platforms.
       if nullish platforms then Inr JUndefined
       else then_ok (js_get chainCfg ''coingeckoPlatform'') (\<lambda>slug.
              js_get platforms (to_string slug)))"

text \<open>
  \<^verbatim>\<open>item.symbol?.toUpperCase() || ""\<close>: calling \<^verbatim>\<open>toUpperCase\<close> on a value that
  is neither nullish nor a string is a TypeError (it is not a function there).
\<close>

definition normalized_symbol :: "jsval \<Rightarrow> js_error + jsval" where
  "normalized_symbol item =
     then_ok (js_get item ''symbol'') (\<lambda>symbol.
       then_ok (if nullish symbol then Inr JUndefined
                else (case symbol of JStr s \<Rightarrow> Inr (JStr (toUpperCase s)) | _ \<Rightarrow> Inl TypeError))
         (\<lambda>upper. Inr (if truthy upper then upper else JStr '''')))"

text \<open>The object literal pushed for one record.\<close>

definition make_token :: "jsval \<Rightarrow> jsval \<Rightarrow> jsval \<Rightarrow> js_error + jsval" where
  "make_token item chainCfg address =
     then_ok (js_get chainCfg ''chainId'') (\<lambda>chainId.
     then_ok (js_get item ''name'') (\<lambda>name.
     then_ok (normalized_symbol item) (\<lambda>symbol.
     then_ok (js_get chainCfg ''decimals'') (\<lambda>decimals.
       Inr (JObj
         [(''chainId'', chainId),
          (''address'', address),
          (''name'', name),
          (''symbol'', symbol),
          (''decimals'', decimals),
          (''logoURI'', JStr '''')])))))"

text \<open>
  The body of the \<^verbatim>\<open>for\<close> loop, over the remaining items, with the array \<open>tokens\<close>
  built so far; \<^verbatim>\<open>push\<close> appends at the end.
\<close>

fun transform_loop :: "jsval \<Rightarrow> jsval list \<Rightarrow> jsval list \<Rightarrow> js_error + jsval list" where
  "transform_loop chainCfg [] tokens = Inr tokens"
| "transform_loop chainCfg (item # rest) tokens =
     (case lookup_address item chainCfg of
        Inl e \<Rightarrow> Inl e
      | Inr address \<Rightarrow>
          if \<not> truthy address then transform_loop chainCfg rest tokens
          else (case make_token item chainCfg address of
                  Inl e \<Rightarrow> Inl e
                | Inr token \<Rightarrow> transform_loop chainCfg rest (tokens @ [token])))"

text \<open>
  What \<^verbatim>\<open>for (let item of geckoData)\<close> iterates: the elements of an array, the
  characters of a string; any other value is not iterable.
\<close>

fun iterate :: "jsval \<Rightarrow> js_error + jsval list" where
  "iterate (JArr xs) = Inr xs"
| "iterate (JStr s) = Inr (map (\<lambda>c. JStr [c]) s)"
| "iterate v = Inl TypeError"

definition transformCoinGeckoData :: "jsval \<Rightarrow> jsval \<Rightarrow> js_error + jsval list" where
  "transformCoinGeckoData geckoData chainCfg =
     then_ok (iterate geckoData) (\<lambda>items. transform_loop chainCfg items [])"

section \<open>JSON documents\<close>

text \<open>
  A file's text is represented by the JSON document it denotes, so that parsing a written
  file reads that document back. \<open>JSON_stringify\<close> is \<^verbatim>\<open>JSON.stringify\<close> on that
  level: an object property whose value is \<^verbatim>\<open>undefined\<close> or a function is left out,
  such an array element becomes \<^verbatim>\<open>null\<close>, and for such a value itself there is no
  text at all (\<open>None\<close>). \<^verbatim>\<open>Infinity\<close> and \<^verbatim>\<open>-Infinity\<close> are written as
  \<^verbatim>\<open>null\<close> and \<^verbatim>\<open>-0\<close> as \<^verbatim>\<open>0\<close>. The prototype object has no enumerable
  property. Indentation is layout of the text and is not modelled.
\<close>

fun JSON_stringify :: "jsval \<Rightarrow> jsval option"
  and JSON_elems :: "jsval list \<Rightarrow> jsval list"
  and JSON_props :: "(string \<times> jsval) list \<Rightarrow> (string \<times> jsval) list" where
  "JSON_stringify JUndefined = None"
| "JSON_stringify JNull = Some JNull"
| "JSON_stringify (JBool b) = Some (JBool b)"
| "JSON_stringify (JNum n) = Some (JNum n)"
| "JSON_stringify JNegZero = Some (JNum 0)"
| "JSON_stringify JInfinity = Some JNull"
| "JSON_stringify JNegInfinity = Some JNull"
| "JSON_stringify (JStr s) = Some (JStr s)"
| "JSON_stringify (JArr xs) = Some (JArr (JSON_elems xs))"
| "JSON_stringify (JObj ps) = Some (JObj (JSON_props ps))"
| "JSON_stringify (JBuiltin k) = (if k = ''__proto__'' then Some (JObj []) else None)"
| "JSON_elems [] = []"
| "JSON_elems (x # xs) =
     (case JSON_stringify x of None \<Rightarrow> JNull | Some y \<Rightarrow> y) # JSON_elems xs"
| "JSON_props [] = []"
| "JSON_props (p # ps) =
     (case JSON_stringify (snd p) of
        None \<Rightarrow> JSON_props ps
      | Some y \<Rightarrow> (fst p, y) # JSON_props ps)"

text \<open>
  The values that are written and read back unchanged: no \<^verbatim>\<open>undefined\<close>, no function,
  no \<^verbatim>\<open>Infinity\<close> and no \<^verbatim>\<open>-0\<close> inside, and every object with one entry per key.
\<close>

fun json_safe :: "jsval \<Rightarrow> bool"
  and all_json_safe :: "jsval list \<Rightarrow> bool"
  and props_json_safe :: "(string \<times> jsval) list \<Rightarrow> bool" where
  "json_safe JUndefined = False"
| "json_safe JNull = True"
| "json_safe (JBool b) = True"
| "json_safe (JNum n) = True"
| "json_safe JNegZero = False"
| "json_safe JInfinity = False"
| "json_safe JNegInfinity = False"
| "json_safe (JStr s) = True"
| "json_safe (JArr xs) = all_json_safe xs"
| "json_safe (JObj ps) = (distinct (map fst ps) \<and> props_json_safe ps)"
| "json_safe (JBuiltin k) = False"
| "all_json_safe [] = True"
| "all_json_safe (x # xs) = (json_safe x \<and> all_json_safe xs)"
| "props_json_safe [] = True"
| "props_json_safe (p # ps) = (json_safe (snd p) \<and> props_json_safe ps)"

text \<open>
  Deep equality: the same kind of value; arrays of the same length, element by element;
  objects with the same own keys, in any order, and deep-equal values under each key. A
  property that is present with the value \<^verbatim>\<open>undefined\<close> is a key of its object.
\<close>

fun deep_equal :: "jsval \<Rightarrow> jsval \<Rightarrow> bool"
  and deep_equal_elems :: "jsval list \<Rightarrow> jsval list \<Rightarrow> bool"
  and deep_equal_props :: "(string \<times> jsval) list \<Rightarrow> (string \<times> jsval) list \<Rightarrow> bool" where
  "deep_equal (JArr xs) b = (case b of JArr ys \<Rightarrow> deep_equal_elems xs ys | _ \<Rightarrow> False)"
| "deep_equal (JObj ps) b =
     (case b of
        JObj qs \<Rightarrow> set (map fst ps) = set (map fst qs) \<and> deep_equal_props ps qs
      | _ \<Rightarrow> False)"
| "deep_equal JUndefined b = (b = JUndefined)"
| "deep_equal JNull b = (b = JNull)"
| "deep_equal (JBool x) b = (b = JBool x)"
| "deep_equal (JNum n) b = (b = JNum n)"
| "deep_equal JNegZero b = (b = JNegZero)"
| "deep_equal JInfinity b = (b = JInfinity)"
| "deep_equal JNegInfinity b = (b = JNegInfinity)"
| "deep_equal (JStr s) b = (b = JStr s)"
| "deep_equal (JBuiltin k) b = (b = JBuiltin k)"
| "deep_equal_elems [] ys = (ys = [])"
| "deep_equal_elems (x # xs) ys =
     (case ys of [] \<Rightarrow> False | y # ys' \<Rightarrow> deep_equal x y \<and> deep_equal_elems xs ys')"
| "deep_equal_props [] qs = True"
| "deep_equal_props (p # ps) qs =
     ((case map_of qs (fst p) of None \<Rightarrow> False | Some w \<Rightarrow> deep_equal (snd p) w)
      \<and> deep_equal_props ps qs)"

section \<open>The program\<close>

text \<open>
  What a run depends on: the command-line argument \<^verbatim>\<open>process.argv[2]\<close> (if any), what
  \<^verbatim>\<open>axios.get\<close> does for a URL, the two successive readings of
  \<^verbatim>\<open>new Date().toISOString()\<close>, the files present, and which files can be written.
\<close>

text \<open>
  The promise of \<^verbatim>\<open>axios.get\<close> is rejected, with an error that has a message, when the
  request fails in transport or is answered with a status outside 2xx. It is resolved
  with the parsed body; a body that is not JSON does not reject it: with the defaults of
  axios, which the call uses, the promise is then resolved with the body as it came, a
  string.
\<close>

datatype axios_response = Resolved jsval | Rejected string

record world =
  argv2 :: "string option"
  axios_get :: "string \<Rightarrow> axios_response"
  now1 :: string
  now2 :: string
  disk :: "string \<rightharpoonup> jsval"
  write_ok :: "string \<Rightarrow> bool"

text \<open>
  What a run leaves: how the process ended (an exit code, or an error that no handler
  caught), what the program itself wrote with \<^verbatim>\<open>console.error\<close> and
  \<^verbatim>\<open>console.log\<close>, and the files.
\<close>

datatype status = Exited nat | Unhandled js_error

record outcome =
  status :: status
  stderr :: "string list"
  stdout :: "string list"
  files :: "string \<rightharpoonup> jsval"

text \<open>\<^verbatim>\<open>const chainKey = process.argv[2] || "base"\<close>\<close>

definition chainKey_of :: "string option \<Rightarrow> string" where
  "chainKey_of arg = (case arg of None \<Rightarrow> ''base'' | Some k \<Rightarrow> if k \<noteq> [] then k else ''base'')"

definition unsupported_message :: "string \<Rightarrow> string" where
  "unsupported_message chainKey =
     ''Unsupported chain key: '' @ chainKey @ ''. Please check CHAIN_CONFIG.''"

definition createTokenListBase :: "string \<Rightarrow> string \<Rightarrow> jsval \<Rightarrow> js_error + jsval" where
  "createTokenListBase chainKey now chainCfg =
     then_ok (js_get chainCfg ''name'') (\<lambda>name.
       Inr (JObj
         [(''name'', name),
          (''logoURI'', JStr ''https://example.com/logo.png''),
          (''keywords'', JArr [JStr chainKey, JStr ''tokenlist'']),
          (''timestamp'', JStr now),
          (''version'', JObj [(''major'', JNum 1), (''minor'', JNum 0), (''patch'', JNum 0)]),
          (''tokens'', JArr [])]))"

text \<open>The two messages with Chinese text, as UTF-8 bytes.\<close>

definition fetch_failed_prefix :: string where
  "fetch_failed_prefix =
     [CHR 0xE6, CHR 0x8A, CHR 0x93, CHR 0xE5, CHR 0x8F, CHR 0x96] @ '' CoinGecko '' @
     [CHR 0xE6, CHR 0x95, CHR 0xB0, CHR 0xE6, CHR 0x8D, CHR 0xAE,
      CHR 0xE5, CHR 0xA4, CHR 0xB1, CHR 0xE8, CHR 0xB4, CHR 0xA5] @ '':''"

definition done_message :: "string \<Rightarrow> string \<Rightarrow> string" where
  "done_message chainKey outputFileName =
     ''Token List for ['' @ chainKey @ ''] '' @
     [CHR 0xE6, CHR 0x9E, CHR 0x84, CHR 0xE5, CHR 0xBB, CHR 0xBA,
      CHR 0xE5, CHR 0xAE, CHR 0x8C, CHR 0xE6, CHR 0x88, CHR 0x90] @ '', '' @
     [CHR 0xE6, CHR 0x96, CHR 0x87, CHR 0xE4, CHR 0xBB, CHR 0xB6, CHR 0xE5, CHR 0xB7, CHR 0xB2,
      CHR 0xE7, CHR 0x94, CHR 0x9F, CHR 0xE6, CHR 0x88, CHR 0x90] @ '': '' @ outputFileName"

text \<open>
  The fetcher returns the data together with what it wrote to the error stream. A rejected
  request is caught: its message is reported and the result is the empty array.
\<close>

definition fetchTokensFromCoinGecko ::
    "(string \<Rightarrow> axios_response) \<Rightarrow> jsval \<Rightarrow> jsval \<times> string list" where
  "fetchTokensFromCoinGecko get platform =
     (let url = ''https://api.coingecko.com/api/v3/coins/list?platform='' @ to_string platform
      in case get url of
           Resolved data \<Rightarrow> (data, [])
         | Rejected message \<Rightarrow> (JArr [], [fetch_failed_prefix @ '' '' @ message]))"

text \<open>
  The assignment \<^verbatim>\<open>obj.k = v\<close>: an existing property keeps its place, a new one goes
  last. On a value that is not a plain object the assignment is a TypeError
  (\<^verbatim>\<open>undefined\<close>, \<^verbatim>\<open>null\<close>) or is not modelled (the value stays as it is).
\<close>

fun js_set :: "jsval \<Rightarrow> string \<Rightarrow> jsval \<Rightarrow> js_error + jsval" where
  "js_set (JObj ps) k v = Inr (JObj (AList.update k v ps))"
| "js_set JUndefined k v = Inl TypeError"
| "js_set JNull k v = Inl TypeError"
| "js_set obj k v = Inr obj"

definition crashed :: "world \<Rightarrow> string list \<Rightarrow> js_error \<Rightarrow> outcome" where
  "crashed w errs e = \<lparr>status = Unhandled e, stderr = errs, stdout = [], files = disk w\<rparr>"

definition buildTokenList :: "world \<Rightarrow> string \<Rightarrow> outcome" where
  "buildTokenList w chainKey =
     (case
        then_ok (js_get CHAIN_CONFIG chainKey) (\<lambda>chainCfg.
        then_ok (createTokenListBase chainKey (now1 w) chainCfg) (\<lambda>tokenListBase.
        then_ok (js_get chainCfg ''coingeckoPlatform'') (\<lambda>platform.
          Inr (chainCfg, tokenListBase, fetchTokensFromCoinGecko (axios_get w) platform))))
      of
        Inl e \<Rightarrow> crashed w [] e
      | Inr (chainCfg, tokenListBase, geckoData, errs) \<Rightarrow>
          (case
             then_ok (transformCoinGeckoData geckoData chainCfg) (\<lambda>tokenItems.
             then_ok (js_set tokenListBase ''timestamp'' (JStr (now2 w))) (\<lambda>tokenListBase.
               js_set tokenListBase ''tokens'' (JArr tokenItems)))
           of
             Inl e \<Rightarrow> crashed w errs e
           | Inr tokenListBase \<Rightarrow>
               (let outputFileName = chainKey @ ''-tokenlist.json''
                in case JSON_stringify tokenListBase of
                     None \<Rightarrow> crashed w errs TypeError
                   | Some document \<Rightarrow>
                       if write_ok w outputFileName
                       then \<lparr>status = Exited 0, stderr = errs,
                             stdout = [done_message chainKey outputFileName],
                             files = (disk w)(outputFileName \<mapsto> document)\<rparr>
                       else crashed w errs WriteError)))"

text \<open>
  The script, top to bottom: the key, the check of the key (which ends the process with
  code 1), then the entry point.
\<close>

definition program :: "world \<Rightarrow> outcome" where
  "program w =
     (let chainKey = chainKey_of (argv2 w)
      in case js_get CHAIN_CONFIG chainKey of
           Inl e \<Rightarrow> crashed w [] e
         | Inr chainCfg \<Rightarrow>
             if \<not> truthy chainCfg
             then \<lparr>status = Exited 1, stderr = [unsupported_message chainKey], stdout = [],
                   files = disk w\<rparr>
             else buildTokenList w chainKey)"

section \<open>The data model of the specification\<close>

text \<open>
  A NetworkConfig, and the object that holds it in the configuration table.
\<close>

record NetworkConfig =
  networkId :: int
  platformSlug :: string
  displayName :: string
  decimals :: int

definition config_object :: "NetworkConfig \<Rightarrow> jsval" where
  "config_object nc = JObj
     [(''chainId'', JNum (networkId nc)),
      (''coingeckoPlatform'', JStr (platformSlug nc)),
      (''name'', JStr (displayName nc)),
      (''decimals'', JNum (decimals nc))]"

text \<open>
  An upstream coin record is an object whose \<^verbatim>\<open>symbol\<close> is a string or absent and
  whose \<^verbatim>\<open>platforms\<close> is absent or a mapping from platform slugs to contract addresses
  (strings) or nothing. A JSON \<^verbatim>\<open>null\<close> counts as absent.
\<close>

fun string_or_absent :: "jsval option \<Rightarrow> bool" where
  "string_or_absent None = True"
| "string_or_absent (Some JNull) = True"
| "string_or_absent (Some (JStr s)) = True"
| "string_or_absent (Some v) = False"

fun address_or_absent :: "jsval \<Rightarrow> bool" where
  "address_or_absent JNull = True"
| "address_or_absent (JStr a) = True"
| "address_or_absent v = False"

fun address_map_or_absent :: "jsval option \<Rightarrow> bool" where
  "address_map_or_absent None = True"
| "address_map_or_absent (Some JNull) = True"
| "address_map_or_absent (Some (JObj qs)) = list_all (\<lambda>q. address_or_absent (snd q)) qs"
| "address_map_or_absent (Some v) = False"

fun upstream_record :: "jsval \<Rightarrow> bool" where
  "upstream_record (JObj ps) =
     (string_or_absent (map_of ps ''symbol'') \<and> address_map_or_absent (map_of ps ''platforms''))"
| "upstream_record v = False"

text \<open>
  The transformer in the words of the specification: the contract address a record
  carries under a platform slug, the symbol upper-cased or empty, and the TokenRecord of a
  record that carries an address.
\<close>

definition spec_address :: "string \<Rightarrow> jsval \<Rightarrow> string option" where
  "spec_address slug item =
     (case own_property item ''platforms'' of
        Some (JObj qs) \<Rightarrow>
          (case map_of qs slug of
             Some (JStr a) \<Rightarrow> if a \<noteq> [] then Some a else None
           | _ \<Rightarrow> None)
      | _ \<Rightarrow> None)"

definition spec_symbol :: "jsval \<Rightarrow> string" where
  "spec_symbol item =
     (case own_property item ''symbol'' of Some (JStr s) \<Rightarrow> toUpperCase s | _ \<Rightarrow> [])"

definition spec_name :: "jsval \<Rightarrow> jsval" where
  "spec_name item = (case own_property item ''name'' of Some n \<Rightarrow> n | None \<Rightarrow> JUndefined)"

definition spec_token :: "NetworkConfig \<Rightarrow> jsval \<Rightarrow> jsval option" where
  "spec_token nc item =
     (case spec_address (platformSlug nc) item of
        None \<Rightarrow> None
      | Some a \<Rightarrow> Some (JObj
          [(''chainId'', JNum (networkId nc)),
           (''address'', JStr a),
           (''name'', spec_name item),
           (''symbol'', JStr (spec_symbol item)),
           (''decimals'', JNum (decimals nc)),
           (''logoURI'', JStr [])]))"

definition spec_transform :: "NetworkConfig \<Rightarrow> jsval list \<Rightarrow> jsval list" where
  "spec_transform nc items = List.map_filter (spec_token nc) items"

text \<open>
  A record that carries no address under a slug: its \<^verbatim>\<open>platforms\<close> is absent, or it
  lacks the slug, or it is empty there.
\<close>

fun no_address_in :: "jsval option \<Rightarrow> string \<Rightarrow> bool" where
  "no_address_in None slug = True"
| "no_address_in (Some JNull) slug = True"
| "no_address_in (Some (JObj qs)) slug =
     (case map_of qs slug of None \<Rightarrow> True | Some a \<Rightarrow> a = JStr [] \<or> a = JNull)"
| "no_address_in (Some v) slug = False"

fun lacks_address :: "string \<Rightarrow> jsval \<Rightarrow> bool" where
  "lacks_address slug (JObj ps) = no_address_in (map_of ps ''platforms'') slug"
| "lacks_address slug v = False"

text \<open>
  The address filter of the loop, and the relation between a record that passed it and the
  token pushed for it.
\<close>

definition passes_address_filter :: "jsval \<Rightarrow> jsval \<Rightarrow> bool" where
  "passes_address_filter chainCfg item =
     (case lookup_address item chainCfg of Inl e \<Rightarrow> False | Inr address \<Rightarrow> truthy address)"

definition pushed_for :: "jsval \<Rightarrow> jsval \<Rightarrow> jsval \<Rightarrow> bool" where
  "pushed_for chainCfg item token =
     (case lookup_address item chainCfg of
        Inl e \<Rightarrow> False
      | Inr address \<Rightarrow> make_token item chainCfg address = Inr token)"

text \<open>
  The token list envelope of a NetworkConfig, as a JSON document: name, logo placeholder,
  keywords, timestamp, version and tokens.
\<close>

definition envelope_document :: "string \<Rightarrow> NetworkConfig \<Rightarrow> string \<Rightarrow> jsval list \<Rightarrow> jsval" where
  "envelope_document chainKey nc timestamp tokens = JObj
     [(''name'', JStr (displayName nc)),
      (''logoURI'', JStr ''https://example.com/logo.png''),
      (''keywords'', JArr [JStr chainKey, JStr ''tokenlist'']),
      (''timestamp'', JStr timestamp),
      (''version'', JObj [(''major'', JNum 1), (''minor'', JNum 0), (''patch'', JNum 0)]),
      (''tokens'', JArr tokens)]"

text \<open>A document without its \<^verbatim>\<open>timestamp\<close> field.\<close>

fun erase_timestamp :: "jsval \<Rightarrow> jsval" where
  "erase_timestamp (JObj ps) = JObj (AList.delete ''timestamp'' ps)"
| "erase_timestamp v = v"

definition output_file :: "world \<Rightarrow> string" where
  "output_file w = chainKey_of (argv2 w) @ ''-tokenlist.json''"


text \<open>
  Simple surroundings for concrete runs: a server that answers every request the same
  way, a working directory that is empty, and one in which every file can be written.
\<close>

definition constant_response :: "axios_response \<Rightarrow> string \<Rightarrow> axios_response" where
  "constant_response r url = r"

definition no_files :: "string \<rightharpoonup> jsval" where
  "no_files = Map.empty"

definition every_file_writable :: "string \<Rightarrow> bool" where
  "every_file_writable f = True"

section \<open>Basic facts\<close>

text \<open>
  Evaluating one of the parts that are not defined stops the evaluation.
\<close>

lemma builtin_member_code [code]:
  "builtin_member v k = Code.abort (STR ''built-in member'') (\<lambda>_. builtin_member v k)"
  by simp

lemma number_string_code [code]:
  "number_string n = Code.abort (STR ''number beyond the safe integers'') (\<lambda>_. number_string n)"
  by simp

lemma unicode_toUpperCase_code [code]:
  "unicode_toUpperCase s = Code.abort (STR ''upper-casing beyond ASCII'') (\<lambda>_. unicode_toUpperCase s)"
  by simp

lemma then_ok_Inl: "then_ok (Inl e) f = Inl e"
  by (simp add: then_ok_def)

lemma then_ok_Inr: "then_ok (Inr v) f = f v"
  by (simp add: then_ok_def)

lemma program_keys_not_inherited:
  "''platforms'' \<notin> set Object_prototype_keys"
  "''symbol'' \<notin> set Object_prototype_keys"
  "''name'' \<notin> set Object_prototype_keys"
  "''chainId'' \<notin> set Object_prototype_keys"
  "''coingeckoPlatform'' \<notin> set Object_prototype_keys"
  "''decimals'' \<notin> set Object_prototype_keys"
  by (simp_all add: Object_prototype_keys_def)

lemma js_get_JObj:
  "js_get (JObj ps) k =
     Inr (case map_of ps k of
            Some x \<Rightarrow> x
          | None \<Rightarrow> if k \<in> set Object_prototype_keys then JBuiltin k else JUndefined)"
  by (simp add: js_get_def)

lemma js_get_config:
  "js_get (config_object nc) ''chainId'' = Inr (JNum (networkId nc))"
  "js_get (config_object nc) ''coingeckoPlatform'' = Inr (JStr (platformSlug nc))"
  "js_get (config_object nc) ''name'' = Inr (JStr (displayName nc))"
  "js_get (config_object nc) ''decimals'' = Inr (JNum (decimals nc))"
  by (simp_all add: config_object_def js_get_JObj)


lemma address_map_value:
  "list_all (\<lambda>q. address_or_absent (snd q)) qs \<Longrightarrow> map_of qs k = Some v \<Longrightarrow> address_or_absent v"
  by (auto simp: list_all_iff dest!: map_of_SomeD)

lemma address_or_absent_cases:
  "address_or_absent v \<Longrightarrow> v = JNull \<or> (\<exists>a. v = JStr a)"
  by (cases v) auto

lemma lookup_address_carried:
  assumes "upstream_record item" and "platformSlug nc \<notin> set Object_prototype_keys"
    and "spec_address (platformSlug nc) item = Some a"
  shows "lookup_address item (config_object nc) = Inr (JStr a)" and "a \<noteq> []"
  using assms
  by (auto simp: lookup_address_def spec_address_def js_get_JObj js_get_config then_ok_Inr
        program_keys_not_inherited
      split: option.splits jsval.splits if_splits elim!: upstream_record.elims)

lemma lookup_address_not_carried:
  assumes "upstream_record item" and "platformSlug nc \<notin> set Object_prototype_keys"
    and "spec_address (platformSlug nc) item = None"
  shows "\<exists>v. lookup_address item (config_object nc) = Inr v \<and> \<not> truthy v"
proof -
  from assms(1) obtain ps where item: "item = JObj ps"
    and pl: "address_map_or_absent (map_of ps ''platforms'')"
    by (cases item) auto
  show ?thesis
  proof (cases "map_of ps ''platforms''")
    case None
    then show ?thesis
      by (simp add: item lookup_address_def js_get_JObj then_ok_Inr program_keys_not_inherited)
  next
    case (Some p)
    show ?thesis
    proof (cases p)
      case (JObj qs)
      show ?thesis
      proof (cases "map_of qs (platformSlug nc)")
        case None
        then show ?thesis using assms(2) Some JObj
          by (simp add: item lookup_address_def js_get_JObj js_get_config then_ok_Inr
                program_keys_not_inherited)
      next
        case (Some v)
        from pl \<open>map_of ps ''platforms'' = Some p\<close> JObj Some have "address_or_absent v"
          by (auto intro: address_map_value)
        then have "v = JNull \<or> (\<exists>a. v = JStr a)" by (rule address_or_absent_cases)
        moreover have "v \<noteq> JStr a" if "a \<noteq> []" for a
          using assms(3) Some JObj \<open>map_of ps ''platforms'' = Some p\<close> that
          by (auto simp: spec_address_def item)
        ultimately have "\<not> truthy v" by (cases v) auto
        then show ?thesis using Some JObj \<open>map_of ps ''platforms'' = Some p\<close>
          by (simp add: item lookup_address_def js_get_JObj js_get_config then_ok_Inr
                program_keys_not_inherited)
      qed
    qed (use pl Some in \<open>simp_all add: item lookup_address_def js_get_JObj then_ok_Inr
                program_keys_not_inherited\<close>)
  qed
qed

lemma normalized_symbol_record:
  assumes "upstream_record item"
  shows "normalized_symbol item = Inr (JStr (spec_symbol item))"
proof -
  from assms obtain ps where item: "item = JObj ps"
    and sy: "string_or_absent (map_of ps ''symbol'')"
    by (cases item) auto
  show ?thesis
  proof (cases "map_of ps ''symbol''")
    case None
    then show ?thesis
      by (simp add: item normalized_symbol_def spec_symbol_def js_get_JObj then_ok_Inr
            program_keys_not_inherited)
  next
    case (Some s)
    with sy show ?thesis
      by (cases s)
         (simp_all add: item normalized_symbol_def spec_symbol_def js_get_JObj then_ok_Inr
            toUpperCase_def)
  qed
qed

lemma js_get_name_record:
  "js_get (JObj ps) ''name'' = Inr (spec_name (JObj ps))"
  by (simp add: js_get_JObj spec_name_def program_keys_not_inherited split: option.splits)

lemma make_token_record:
  assumes "upstream_record item"
  shows "make_token item (config_object nc) address =
           Inr (JObj
             [(''chainId'', JNum (networkId nc)),
              (''address'', address),
              (''name'', spec_name item),
              (''symbol'', JStr (spec_symbol item)),
              (''decimals'', JNum (decimals nc)),
              (''logoURI'', JStr [])])"
proof -
  from assms obtain ps where item: "item = JObj ps" by (cases item) auto
  show ?thesis
    using normalized_symbol_record [OF assms]
    by (simp add: make_token_def js_get_config then_ok_Inr js_get_name_record item)
qed

lemma transform_loop_records:
  assumes "list_all upstream_record items" and "platformSlug nc \<notin> set Object_prototype_keys"
  shows "transform_loop (config_object nc) items tokens = Inr (tokens @ spec_transform nc items)"
  using assms(1)
proof (induction items arbitrary: tokens)
  case Nil
  then show ?case by (simp add: spec_transform_def)
next
  case (Cons item rest)
  then have rec: "upstream_record item" and rest: "list_all upstream_record rest" by simp_all
  show ?case
  proof (cases "spec_address (platformSlug nc) item")
    case None
    from lookup_address_not_carried [OF rec assms(2) None]
    obtain v where "lookup_address item (config_object nc) = Inr v" "\<not> truthy v" by blast
    then show ?thesis using Cons.IH [OF rest] None
      by (simp add: spec_transform_def spec_token_def map_filter_simps)
  next
    case (Some a)
    from lookup_address_carried [OF rec assms(2) Some]
    have "lookup_address item (config_object nc) = Inr (JStr a)" "a \<noteq> []" by simp_all
    then show ?thesis using Cons.IH [OF rest] Some make_token_record [OF rec]
      by (simp add: spec_transform_def spec_token_def map_filter_simps)
  qed
qed

section \<open>The configuration resolver\<close>

text \<open>
  Claim C5. The supported network keys are \<^verbatim>\<open>base\<close>, \<^verbatim>\<open>bsc\<close>, \<^verbatim>\<open>ethereum\<close> and
  \<^verbatim>\<open>polygon\<close>, and looking each of them up in the configuration table returns the
  NetworkConfig with the documented network identifier: 8453, 56, 1 and 137.
\<close>

theorem chain_config_network_ids:
  "supported_keys = [''base'', ''bsc'', ''ethereum'', ''polygon'']
   \<and> js_get CHAIN_CONFIG ''base'' = Inr (config_object
        \<lparr>networkId = 8453, platformSlug = ''base'', displayName = ''Base Token List'', decimals = 18\<rparr>)
   \<and> js_get CHAIN_CONFIG ''bsc'' = Inr (config_object
        \<lparr>networkId = 56, platformSlug = ''binance-smart-chain'', displayName = ''BSC Token List'', decimals = 18\<rparr>)
   \<and> js_get CHAIN_CONFIG ''ethereum'' = Inr (config_object
        \<lparr>networkId = 1, platformSlug = ''ethereum'', displayName = ''Ethereum Token List'', decimals = 18\<rparr>)
   \<and> js_get CHAIN_CONFIG ''polygon'' = Inr (config_object
        \<lparr>networkId = 137, platformSlug = ''polygon-pos'', displayName = ''Polygon Token List'', decimals = 18\<rparr>)"
  by (simp add: supported_keys_def CHAIN_CONFIG_def js_get_JObj config_object_def)

section \<open>The transformer refines its specification\<close>



section \<open>Records without an address\<close>

lemma transform_loop_append:
  "transform_loop chainCfg (before @ after) tokens =
     (case transform_loop chainCfg before tokens of
        Inl e \<Rightarrow> Inl e
      | Inr tokens' \<Rightarrow> transform_loop chainCfg after tokens')"
  by (induction before arbitrary: tokens) (auto split: sum.splits)

lemma lookup_address_lacking:
  assumes "lacks_address (platformSlug nc) item"
    and "platformSlug nc \<notin> set Object_prototype_keys"
  shows "\<exists>v. lookup_address item (config_object nc) = Inr v \<and> \<not> truthy v"
proof -
  from assms(1) obtain ps where item: "item = JObj ps"
    and no: "no_address_in (map_of ps ''platforms'') (platformSlug nc)"
    by (cases item) auto
  show ?thesis
  proof (cases "map_of ps ''platforms''")
    case None
    then show ?thesis
      by (simp add: item lookup_address_def js_get_JObj then_ok_Inr program_keys_not_inherited)
  next
    case (Some p)
    with no assms(2) show ?thesis
      by (cases p)
         (auto simp: item lookup_address_def js_get_JObj js_get_config then_ok_Inr
            program_keys_not_inherited split: option.splits)
  qed
qed

lemma transform_loop_skips:
  assumes "lacks_address (platformSlug nc) item"
    and "platformSlug nc \<notin> set Object_prototype_keys"
  shows "transform_loop (config_object nc) (item # rest) tokens =
         transform_loop (config_object nc) rest tokens"
  using lookup_address_lacking [OF assms] by auto

lemma transform_loop_all_skipped:
  assumes "list_all (lacks_address (platformSlug nc)) items"
    and "platformSlug nc \<notin> set Object_prototype_keys"
  shows "transform_loop (config_object nc) items tokens = Inr tokens"
  using assms(1)
  by (induction items)
     (simp_all add: transform_loop_skips [OF _ assms(2)] del: transform_loop.simps(2))

text \<open>
  Claim C6. A record whose \<^verbatim>\<open>platforms\<close> mapping is absent, or lacks the configured
  platform slug, or is empty there, is skipped without any error: a sequence of such
  records transforms to the empty token list, and such a record can be removed from any
  input without changing the result of the transformer, error or not. Nothing is asked
  of the other fields of the record.
\<close>

theorem records_without_address_are_skipped:
  assumes "list_all (lacks_address (platformSlug nc)) items"
    and "platformSlug nc \<notin> set Object_prototype_keys"
  shows "transformCoinGeckoData (JArr items) (config_object nc) = Inr []
     \<and> (\<forall>item\<in>set items. \<forall>before after.
          transformCoinGeckoData (JArr (before @ item # after)) (config_object nc) =
          transformCoinGeckoData (JArr (before @ after)) (config_object nc))"
proof (intro conjI ballI allI)
  show "transformCoinGeckoData (JArr items) (config_object nc) = Inr []"
    using transform_loop_all_skipped [OF assms]
    by (simp add: transformCoinGeckoData_def then_ok_Inr)
next
  fix item before after
  assume "item \<in> set items"
  with assms(1) have "lacks_address (platformSlug nc) item"
    by (simp add: list_all_iff)
  then have skip: "transform_loop (config_object nc) (item # after) tokens =
      transform_loop (config_object nc) after tokens" for tokens
    using assms(2) by (rule transform_loop_skips)
  show "transformCoinGeckoData (JArr (before @ item # after)) (config_object nc) =
        transformCoinGeckoData (JArr (before @ after)) (config_object nc)"
    unfolding transformCoinGeckoData_def iterate.simps then_ok_Inr transform_loop_append
    by (cases "transform_loop (config_object nc) before []") (simp_all only: sum.case skip)
qed

text \<open>
  Four such records under \<^verbatim>\<open>base\<close>: no \<^verbatim>\<open>platforms\<close> (and a symbol that is not
  even a string), an empty mapping, a mapping for another network, an empty address.
\<close>

theorem records_without_address_are_skipped_witness:
  "list_all (lacks_address ''base'')
     [JObj [(''id'', JStr ''bitcoin''), (''symbol'', JNum 7), (''name'', JStr ''Bitcoin'')],
      JObj [(''id'', JStr ''ether''), (''symbol'', JStr ''eth''), (''platforms'', JObj [])],
      JObj [(''id'', JStr ''matic''), (''platforms'', JObj [(''polygon-pos'', JStr ''0x111'')])],
      JObj [(''id'', JStr ''dai''), (''platforms'', JObj [(''base'', JStr [])])]]
   \<and> ''base'' \<notin> set Object_prototype_keys
   \<and> transformCoinGeckoData (JArr
     [JObj [(''id'', JStr ''bitcoin''), (''symbol'', JNum 7), (''name'', JStr ''Bitcoin'')],
      JObj [(''id'', JStr ''ether''), (''symbol'', JStr ''eth''), (''platforms'', JObj [])],
      JObj [(''id'', JStr ''matic''), (''platforms'', JObj [(''polygon-pos'', JStr ''0x111'')])],
      JObj [(''id'', JStr ''dai''), (''platforms'', JObj [(''base'', JStr [])])]])
     (config_object \<lparr>networkId = 8453, platformSlug = ''base'', displayName = ''Base Token List'', decimals = 18\<rparr>)
     = Inr []"
proof -
  let ?items = "[JObj [(''id'', JStr ''bitcoin''), (''symbol'', JNum 7), (''name'', JStr ''Bitcoin'')],
      JObj [(''id'', JStr ''ether''), (''symbol'', JStr ''eth''), (''platforms'', JObj [])],
      JObj [(''id'', JStr ''matic''), (''platforms'', JObj [(''polygon-pos'', JStr ''0x111'')])],
      JObj [(''id'', JStr ''dai''), (''platforms'', JObj [(''base'', JStr [])])]]"
  let ?nc = "\<lparr>networkId = 8453, platformSlug = ''base'', displayName = ''Base Token List'', decimals = 18\<rparr>"
  have lacking: "list_all (lacks_address (platformSlug ?nc)) ?items" by simp
  have slug: "platformSlug ?nc \<notin> set Object_prototype_keys"
    by (simp add: Object_prototype_keys_def)
  from records_without_address_are_skipped [OF lacking slug] lacking slug show ?thesis
    by simp
qed

section \<open>Records without a name\<close>

text \<open>
  Claim C10. The transformer does not check that a record has a name: a record that
  carries a contract address under the configured platform slug and has no \<^verbatim>\<open>name\<close>
  field still yields its token, whose \<^verbatim>\<open>name\<close> is \<^verbatim>\<open>undefined\<close>; a missing
  symbol, unlike the name, becomes the empty string.
\<close>

theorem missing_name_is_emitted_undefined:
  assumes "list_all upstream_record items"
    and "platformSlug nc \<notin> set Object_prototype_keys"
    and "item \<in> set items"
    and "spec_address (platformSlug nc) item = Some a"
    and "own_property item ''name'' = None"
  shows "\<exists>tokens. transformCoinGeckoData (JArr items) (config_object nc) = Inr tokens
     \<and> JObj [(''chainId'', JNum (networkId nc)),
              (''address'', JStr a),
              (''name'', JUndefined),
              (''symbol'', JStr (spec_symbol item)),
              (''decimals'', JNum (decimals nc)),
              (''logoURI'', JStr [])] \<in> set tokens
     \<and> (own_property item ''symbol'' = None \<longrightarrow> spec_symbol item = [])"
proof -
  have "transformCoinGeckoData (JArr items) (config_object nc) = Inr (spec_transform nc items)"
    using transform_loop_records [OF assms(1,2), of "[]"]
    by (simp add: transformCoinGeckoData_def then_ok_Inr)
  moreover have "spec_token nc item =
      Some (JObj [(''chainId'', JNum (networkId nc)),
              (''address'', JStr a),
              (''name'', JUndefined),
              (''symbol'', JStr (spec_symbol item)),
              (''decimals'', JNum (decimals nc)),
              (''logoURI'', JStr [])])"
    using assms(4,5) by (simp add: spec_token_def spec_name_def)
  then have "JObj [(''chainId'', JNum (networkId nc)),
              (''address'', JStr a),
              (''name'', JUndefined),
              (''symbol'', JStr (spec_symbol item)),
              (''decimals'', JNum (decimals nc)),
              (''logoURI'', JStr [])] \<in> set (spec_transform nc items)"
    using assms(3) by (force simp: spec_transform_def map_filter_def)
  moreover have "own_property item ''symbol'' = None \<longrightarrow> spec_symbol item = []"
    by (simp add: spec_symbol_def)
  ultimately show ?thesis
    by (intro exI [of _ "spec_transform nc items"] conjI)
qed

theorem missing_name_is_emitted_undefined_witness:
  "list_all upstream_record
     [JObj [(''id'', JStr ''dai''), (''platforms'', JObj [(''base'', JStr ''0x123'')])]]
   \<and> ''base'' \<notin> set Object_prototype_keys
   \<and> own_property (JObj [(''id'', JStr ''dai''), (''platforms'', JObj [(''base'', JStr ''0x123'')])]) ''name'' = None
   \<and> transformCoinGeckoData
       (JArr [JObj [(''id'', JStr ''dai''), (''platforms'', JObj [(''base'', JStr ''0x123'')])]])
       (config_object \<lparr>networkId = 8453, platformSlug = ''base'', displayName = ''Base Token List'', decimals = 18\<rparr>)
     = Inr [JObj [(''chainId'', JNum 8453), (''address'', JStr ''0x123''), (''name'', JUndefined),
                  (''symbol'', JStr []), (''decimals'', JNum 18), (''logoURI'', JStr [])]]"
proof -
  let ?item = "JObj [(''id'', JStr ''dai''), (''platforms'', JObj [(''base'', JStr ''0x123'')])]"
  let ?nc = "\<lparr>networkId = 8453, platformSlug = ''base'', displayName = ''Base Token List'', decimals = 18\<rparr>"
  have records: "list_all upstream_record [?item]" by simp
  have slug: "platformSlug ?nc \<notin> set Object_prototype_keys"
    by (simp add: Object_prototype_keys_def)
  have carried: "spec_address (platformSlug ?nc) ?item = Some ''0x123''"
    by (simp add: spec_address_def)
  have nameless: "own_property ?item ''name'' = None" by simp
  have symbol: "spec_symbol ?item = []" by (simp add: spec_symbol_def)
  have one: "length tokens = 1" if "transformCoinGeckoData (JArr [?item]) (config_object ?nc) = Inr tokens" for tokens
    using that transform_loop_records [OF records slug, of "[]"] carried
    by (auto simp: transformCoinGeckoData_def then_ok_Inr spec_transform_def spec_token_def map_filter_simps)
  from missing_name_is_emitted_undefined [OF records slug _ carried nameless]
  obtain tokens where t: "transformCoinGeckoData (JArr [?item]) (config_object ?nc) = Inr tokens"
    and m: "JObj [(''chainId'', JNum (networkId ?nc)), (''address'', JStr ''0x123''), (''name'', JUndefined),
              (''symbol'', JStr (spec_symbol ?item)), (''decimals'', JNum (decimals ?nc)),
              (''logoURI'', JStr [])] \<in> set tokens"
    by auto
  from one [OF t] m have "tokens = [JObj [(''chainId'', JNum 8453), (''address'', JStr ''0x123''), (''name'', JUndefined),
                  (''symbol'', JStr []), (''decimals'', JNum 18), (''logoURI'', JStr [])]]"
    unfolding symbol by (cases tokens) auto
  with t records slug nameless show ?thesis by simp
qed

section \<open>The tokens of any input\<close>

lemma make_token_shape:
  assumes "make_token item chainCfg address = Inr token"
  shows "\<exists>chainId name symbol decimals.
     token = JObj [(''chainId'', chainId), (''address'', address), (''name'', name),
                   (''symbol'', symbol), (''decimals'', decimals), (''logoURI'', JStr [])]
     \<and> js_get chainCfg ''chainId'' = Inr chainId
     \<and> js_get item ''name'' = Inr name
     \<and> normalized_symbol item = Inr symbol
     \<and> js_get chainCfg ''decimals'' = Inr decimals"
  using assms
  by (auto simp: make_token_def then_ok_def split: sum.splits)

lemma transform_loop_pushed:
  assumes "transform_loop chainCfg items tokens = Inr result"
  shows "\<exists>pushed. result = tokens @ pushed
     \<and> list_all2 (pushed_for chainCfg) (filter (passes_address_filter chainCfg) items) pushed"
  using assms
proof (induction items arbitrary: tokens)
  case Nil
  then show ?case by simp
next
  case (Cons item rest)
  from Cons.prems obtain address where look: "lookup_address item chainCfg = Inr address"
    by (auto split: sum.splits)
  show ?case
  proof (cases "truthy address")
    case False
    with Cons.prems look have "transform_loop chainCfg rest tokens = Inr result" by simp
    from Cons.IH [OF this] False look show ?thesis
      by (simp add: passes_address_filter_def)
  next
    case True
    with Cons.prems look obtain token where made: "make_token item chainCfg address = Inr token"
      and rest: "transform_loop chainCfg rest (tokens @ [token]) = Inr result"
      by (auto split: sum.splits)
    from Cons.IH [OF rest] obtain pushed where "result = (tokens @ [token]) @ pushed"
      and "list_all2 (pushed_for chainCfg) (filter (passes_address_filter chainCfg) rest) pushed"
      by blast
    moreover have "passes_address_filter chainCfg item"
      using True look by (simp add: passes_address_filter_def)
    moreover have "pushed_for chainCfg item token"
      using look made by (simp add: pushed_for_def)
    ultimately show ?thesis
      by (intro exI [of _ "token # pushed"]) simp
  qed
qed

lemma pushed_token_address:
  assumes "passes_address_filter chainCfg item" and "pushed_for chainCfg item token"
  shows "\<exists>address. lookup_address item chainCfg = Inr address \<and> truthy address
     \<and> make_token item chainCfg address = Inr token
     \<and> own_property token ''address'' = Some address"
proof -
  from assms obtain address where a: "lookup_address item chainCfg = Inr address" "truthy address"
    "make_token item chainCfg address = Inr token"
    by (auto simp: passes_address_filter_def pushed_for_def split: sum.splits)
  from make_token_shape [OF a(3)] have "own_property token ''address'' = Some address" by auto
  with a show ?thesis by blast
qed

lemma list_all2_right_member:
  "list_all2 P xs ys \<Longrightarrow> y \<in> set ys \<Longrightarrow> \<exists>x\<in>set xs. P x y"
  by (induction rule: list_all2_induct) auto

lemma pushed_tokens_made:
  assumes "list_all2 (pushed_for chainCfg) (filter (passes_address_filter chainCfg) items) tokens"
    and "token \<in> set tokens"
  shows "\<exists>item\<in>set items. passes_address_filter chainCfg item \<and> pushed_for chainCfg item token"
proof -
  from list_all2_right_member [OF assms]
  obtain item where "item \<in> set (filter (passes_address_filter chainCfg) items)"
    and "pushed_for chainCfg item token"
    by blast
  then show ?thesis by auto
qed

section \<open>JSON documents and the resolved run\<close>

lemma all_json_safe_iff: "all_json_safe xs \<longleftrightarrow> (\<forall>x\<in>set xs. json_safe x)"
  by (induction xs) auto

lemma props_json_safe_iff: "props_json_safe ps \<longleftrightarrow> (\<forall>p\<in>set ps. json_safe (snd p))"
  by (induction ps) auto

lemma JSON_elems_map:
  "JSON_elems xs = map (\<lambda>x. case JSON_stringify x of None \<Rightarrow> JNull | Some y \<Rightarrow> y) xs"
  by (induction xs) auto

lemma JSON_props_unchanged:
  "(\<forall>p\<in>set ps. JSON_stringify (snd p) = Some (snd p)) \<Longrightarrow> JSON_props ps = ps"
  by (induction ps) auto

lemma JSON_stringify_json: "json_safe v \<Longrightarrow> JSON_stringify v = Some v"
proof (induction v)
  case (JArr xs)
  then have "\<forall>x\<in>set xs. JSON_stringify x = Some x" by (simp add: all_json_safe_iff)
  then have "JSON_elems xs = xs" by (simp add: JSON_elems_map map_idI)
  then show ?case by simp
next
  case (JObj ps)
  then have "\<forall>p\<in>set ps. JSON_stringify (snd p) = Some (snd p)"
    by (auto simp: props_json_safe_iff snds.simps)
  then show ?case by (simp add: JSON_props_unchanged)
qed simp_all

lemma JSON_props_kept:
  "map_of ps k = Some v \<Longrightarrow> JSON_stringify v = Some v' \<Longrightarrow> map_of (JSON_props ps) k = Some v'"
  by (induction ps) (auto split: option.splits if_splits)

lemma deep_equal_props_self:
  "(\<forall>p\<in>set ps. map_of qs (fst p) = Some (snd p) \<and> deep_equal (snd p) (snd p))
     \<Longrightarrow> deep_equal_props ps qs"
  by (induction ps) auto

lemma deep_equal_elems_self:
  "(\<forall>x\<in>set xs. deep_equal x x) \<Longrightarrow> deep_equal_elems xs xs"
  by (induction xs) auto

lemma deep_equal_json: "json_safe v \<Longrightarrow> deep_equal v v"
proof (induction v)
  case (JArr xs)
  then have "\<forall>x\<in>set xs. deep_equal x x" by (simp add: all_json_safe_iff)
  then show ?case by (simp add: deep_equal_elems_self)
next
  case (JObj ps)
  then have "\<forall>p\<in>set ps. map_of ps (fst p) = Some (snd p) \<and> deep_equal (snd p) (snd p)"
    by (auto simp: props_json_safe_iff snds.simps)
  then show ?case by (simp add: deep_equal_props_self)
qed simp_all

lemma resolved_config_facts:
  assumes "js_get CHAIN_CONFIG key = Inr (config_object nc)"
  shows "key \<in> set supported_keys" and "platformSlug nc \<notin> set Object_prototype_keys"
    and "decimals nc = 18"
  using assms
  by (auto simp: js_get_JObj CHAIN_CONFIG_def config_object_def supported_keys_def
        Object_prototype_keys_def split: if_splits)

lemma supported_config:
  assumes "key \<in> set supported_keys"
  shows "\<exists>nc. js_get CHAIN_CONFIG key = Inr (config_object nc)"
proof -
  from assms consider "key = ''base''" | "key = ''bsc''" | "key = ''ethereum''" | "key = ''polygon''"
    by (auto simp: supported_keys_def CHAIN_CONFIG_def)
  then show ?thesis
  proof cases
    case 1
    have "js_get CHAIN_CONFIG ''base'' = Inr (config_object
        \<lparr>networkId = 8453, platformSlug = ''base'', displayName = ''Base Token List'', decimals = 18\<rparr>)"
      by (simp add: CHAIN_CONFIG_def js_get_JObj config_object_def)
    with 1 show ?thesis by blast
  next
    case 2
    have "js_get CHAIN_CONFIG ''bsc'' = Inr (config_object
        \<lparr>networkId = 56, platformSlug = ''binance-smart-chain'', displayName = ''BSC Token List'', decimals = 18\<rparr>)"
      by (simp add: CHAIN_CONFIG_def js_get_JObj config_object_def)
    with 2 show ?thesis by blast
  next
    case 3
    have "js_get CHAIN_CONFIG ''ethereum'' = Inr (config_object
        \<lparr>networkId = 1, platformSlug = ''ethereum'', displayName = ''Ethereum Token List'', decimals = 18\<rparr>)"
      by (simp add: CHAIN_CONFIG_def js_get_JObj config_object_def)
    with 3 show ?thesis by blast
  next
    case 4
    have "js_get CHAIN_CONFIG ''polygon'' = Inr (config_object
        \<lparr>networkId = 137, platformSlug = ''polygon-pos'', displayName = ''Polygon Token List'', decimals = 18\<rparr>)"
      by (simp add: CHAIN_CONFIG_def js_get_JObj config_object_def)
    with 4 show ?thesis by blast
  qed
qed

lemma truthy_config_object: "truthy (config_object nc)"
  by (simp add: config_object_def)

lemma program_resolved:
  assumes "js_get CHAIN_CONFIG (chainKey_of (argv2 w)) = Inr (config_object nc)"
  shows "program w =
     (case transformCoinGeckoData
             (fst (fetchTokensFromCoinGecko (axios_get w) (JStr (platformSlug nc))))
             (config_object nc) of
        Inl e \<Rightarrow> crashed w (snd (fetchTokensFromCoinGecko (axios_get w) (JStr (platformSlug nc)))) e
      | Inr tokenItems \<Rightarrow>
          if write_ok w (output_file w)
          then \<lparr>status = Exited 0,
                stderr = snd (fetchTokensFromCoinGecko (axios_get w) (JStr (platformSlug nc))),
                stdout = [done_message (chainKey_of (argv2 w)) (output_file w)],
                files = (disk w)(output_file w \<mapsto>
                  envelope_document (chainKey_of (argv2 w)) nc (now2 w) (JSON_elems tokenItems))\<rparr>
          else crashed w (snd (fetchTokensFromCoinGecko (axios_get w) (JStr (platformSlug nc))))
                 WriteError)"
  using assms
  by (simp add: program_def buildTokenList_def truthy_config_object createTokenListBase_def
        js_get_config then_ok_Inr then_ok_def output_file_def envelope_document_def Let_def
      split: prod.splits sum.splits)

section \<open>A failed fetch\<close>





section \<open>The decimals of the shipped table\<close>

lemma transformed_tokens_made:
  assumes "transformCoinGeckoData geckoData chainCfg = Inr tokens" and "token \<in> set tokens"
  shows "\<exists>items item address. iterate geckoData = Inr items \<and> item \<in> set items
     \<and> passes_address_filter chainCfg item
     \<and> lookup_address item chainCfg = Inr address \<and> truthy address
     \<and> make_token item chainCfg address = Inr token
     \<and> own_property token ''address'' = Some address"
proof -
  from assms(1) obtain items where it: "iterate geckoData = Inr items"
    and loop: "transform_loop chainCfg items [] = Inr tokens"
    by (auto simp: transformCoinGeckoData_def then_ok_def split: sum.splits)
  from transform_loop_pushed [OF loop]
  have "list_all2 (pushed_for chainCfg) (filter (passes_address_filter chainCfg) items) tokens"
    by simp
  from pushed_tokens_made [OF this assms(2)] obtain item where "item \<in> set items"
    and "passes_address_filter chainCfg item" and "pushed_for chainCfg item token"
    by blast
  with it pushed_token_address show ?thesis by blast
qed

lemma written_token_property:
  assumes "map_of ps k = Some v" and "JSON_stringify v = Some v'"
  shows "own_property (case JSON_stringify (JObj ps) of None \<Rightarrow> JNull | Some y \<Rightarrow> y) k = Some v'"
  using JSON_props_kept [OF assms] by simp

lemma written_tokens:
  assumes "token' \<in> set (JSON_elems tokens)"
  shows "\<exists>token\<in>set tokens. token' = (case JSON_stringify token of None \<Rightarrow> JNull | Some y \<Rightarrow> y)"
  using assms by (auto simp: JSON_elems_map)

lemma program_exited_0:
  assumes "js_get CHAIN_CONFIG (chainKey_of (argv2 w)) = Inr (config_object nc)"
    and "status (program w) = Exited 0"
  shows "\<exists>tokens.
     transformCoinGeckoData (fst (fetchTokensFromCoinGecko (axios_get w) (JStr (platformSlug nc))))
       (config_object nc) = Inr tokens
     \<and> write_ok w (output_file w)
     \<and> files (program w) (output_file w) =
         Some (envelope_document (chainKey_of (argv2 w)) nc (now2 w) (JSON_elems tokens))"
  using assms(2) unfolding program_resolved [OF assms(1)]
  by (auto simp: crashed_def split: sum.splits if_splits)

lemma envelope_tokens:
  "js_get (envelope_document key nc t tokens) ''tokens'' = Inr (JArr tokens)"
  by (simp add: envelope_document_def js_get_JObj)

text \<open>
  Claim C9. Every supported network key resolves to a NetworkConfig whose decimals are 18.
  Hence, for a supported key and any upstream data, every token the transformer returns
  has decimals 18, and so has every token of the list that a run ending with exit code 0
  has written.
\<close>

theorem supported_decimals_are_18:
  assumes "key \<in> set supported_keys"
  shows "(\<exists>nc. js_get CHAIN_CONFIG key = Inr (config_object nc) \<and> decimals nc = 18)
     \<and> (\<forall>chainCfg geckoData tokens.
          js_get CHAIN_CONFIG key = Inr chainCfg \<longrightarrow>
          transformCoinGeckoData geckoData chainCfg = Inr tokens \<longrightarrow>
          (\<forall>token\<in>set tokens. own_property token ''decimals'' = Some (JNum 18)))
     \<and> (\<forall>w. chainKey_of (argv2 w) = key \<longrightarrow> status (program w) = Exited 0 \<longrightarrow>
          (\<exists>document tokens.
             files (program w) (output_file w) = Some document
             \<and> js_get document ''tokens'' = Inr (JArr tokens)
             \<and> (\<forall>token\<in>set tokens. own_property token ''decimals'' = Some (JNum 18))))"
proof -
  from supported_config [OF assms] obtain nc
    where resolved: "js_get CHAIN_CONFIG key = Inr (config_object nc)" by blast
  from resolved_config_facts(3) [OF resolved] have dec: "decimals nc = 18" .
  have made: "own_property token ''decimals'' = Some (JNum 18)
      \<and> own_property (case JSON_stringify token of None \<Rightarrow> JNull | Some y \<Rightarrow> y) ''decimals''
          = Some (JNum 18)"
    if "transformCoinGeckoData geckoData (config_object nc) = Inr tokens" and "token \<in> set tokens"
    for geckoData tokens token
  proof -
    from transformed_tokens_made [OF that] obtain item address
      where "make_token item (config_object nc) address = Inr token" by blast
    from make_token_shape [OF this] dec obtain ps where "token = JObj ps"
      and "map_of ps ''decimals'' = Some (JNum 18)"
      by (auto simp: js_get_config)
    then show ?thesis
      using written_token_property [of ps "''decimals''" "JNum 18" "JNum 18"] by simp
  qed
  have run: "\<exists>document tokens.
             files (program w) (output_file w) = Some document
             \<and> js_get document ''tokens'' = Inr (JArr tokens)
             \<and> (\<forall>token\<in>set tokens. own_property token ''decimals'' = Some (JNum 18))"
    if "chainKey_of (argv2 w) = key" and "status (program w) = Exited 0" for w
  proof -
    from resolved that(1)
    have "js_get CHAIN_CONFIG (chainKey_of (argv2 w)) = Inr (config_object nc)" by simp
    from program_exited_0 [OF this that(2)] obtain tokens
      where t: "transformCoinGeckoData
          (fst (fetchTokensFromCoinGecko (axios_get w) (JStr (platformSlug nc))))
          (config_object nc) = Inr tokens"
        and f: "files (program w) (output_file w) =
          Some (envelope_document (chainKey_of (argv2 w)) nc (now2 w) (JSON_elems tokens))"
      by blast
    have "\<forall>token'\<in>set (JSON_elems tokens). own_property token' ''decimals'' = Some (JNum 18)"
      using written_tokens made [OF t] by fastforce
    with f envelope_tokens show ?thesis by blast
  qed
  from resolved dec made run show ?thesis by auto
qed

theorem supported_decimals_are_18_witness:
  "''polygon'' \<in> set supported_keys
   \<and> js_get CHAIN_CONFIG ''polygon'' = Inr (config_object
        \<lparr>networkId = 137, platformSlug = ''polygon-pos'', displayName = ''Polygon Token List'', decimals = 18\<rparr>)
   \<and> transformCoinGeckoData
        (JArr [JObj [(''id'', JStr ''aave''), (''symbol'', JStr ''aave''), (''name'', JStr ''Aave''),
                     (''platforms'', JObj [(''polygon-pos'', JStr ''0xd6df'')])]])
        (config_object
          \<lparr>networkId = 137, platformSlug = ''polygon-pos'', displayName = ''Polygon Token List'', decimals = 18\<rparr>)
      = Inr [JObj [(''chainId'', JNum 137), (''address'', JStr ''0xd6df''), (''name'', JStr ''Aave''),
                   (''symbol'', JStr ''AAVE''), (''decimals'', JNum 18), (''logoURI'', JStr [])]]
   \<and> own_property
        (JObj [(''chainId'', JNum 137), (''address'', JStr ''0xd6df''), (''name'', JStr ''Aave''),
               (''symbol'', JStr ''AAVE''), (''decimals'', JNum 18), (''logoURI'', JStr [])])
        ''decimals'' = Some (JNum 18)"
proof -
  let ?nc = "\<lparr>networkId = 137, platformSlug = ''polygon-pos'', displayName = ''Polygon Token List'', decimals = 18\<rparr>"
  let ?data = "JArr [JObj [(''id'', JStr ''aave''), (''symbol'', JStr ''aave''), (''name'', JStr ''Aave''),
                     (''platforms'', JObj [(''polygon-pos'', JStr ''0xd6df'')])]]"
  let ?token = "JObj [(''chainId'', JNum 137), (''address'', JStr ''0xd6df''), (''name'', JStr ''Aave''),
                   (''symbol'', JStr ''AAVE''), (''decimals'', JNum 18), (''logoURI'', JStr [])]"
  have supported: "''polygon'' \<in> set supported_keys"
    by (simp add: supported_keys_def CHAIN_CONFIG_def)
  have resolved: "js_get CHAIN_CONFIG ''polygon'' = Inr (config_object ?nc)"
    by (simp add: CHAIN_CONFIG_def js_get_JObj config_object_def)
  have transformed: "transformCoinGeckoData ?data (config_object ?nc) = Inr [?token]"
    by code_simp
  from supported_decimals_are_18 [OF supported] resolved transformed
  have "\<forall>token\<in>set [?token]. own_property token ''decimals'' = Some (JNum 18)"
    by blast
  then have "own_property ?token ''decimals'' = Some (JNum 18)" by simp
  with supported resolved transformed show ?thesis by blast
qed

section \<open>Addresses and order of the output\<close>

lemma spec_address_nonempty: "spec_address slug item = Some a \<Longrightarrow> a \<noteq> []"
  by (auto simp: spec_address_def split: option.splits jsval.splits if_splits)

lemma spec_transform_addresses:
  assumes "token \<in> set (spec_transform nc items)"
  shows "\<exists>a. own_property token ''address'' = Some (JStr a) \<and> a \<noteq> []"
proof -
  from assms obtain item where "spec_token nc item = Some token"
    by (auto simp: spec_transform_def map_filter_def)
  then show ?thesis
    by (auto simp: spec_token_def dest: spec_address_nonempty split: option.splits)
qed

lemma written_spec_tokens:
  "list_all2
     (\<lambda>item token. \<exists>a. spec_address (platformSlug nc) item = Some a \<and> a \<noteq> []
        \<and> own_property token ''address'' = Some (JStr a))
     (filter (\<lambda>item. spec_address (platformSlug nc) item \<noteq> None) items)
     (JSON_elems (spec_transform nc items))"
proof (induction items)
  case Nil
  then show ?case by (simp add: spec_transform_def)
next
  case (Cons item items)
  show ?case
  proof (cases "spec_address (platformSlug nc) item")
    case None
    with Cons show ?thesis by (simp add: spec_transform_def spec_token_def)
  next
    case (Some a)
    from spec_address_nonempty [OF Some] have "a \<noteq> []" .
    with Cons Some show ?thesis by (simp add: spec_transform_def spec_token_def)
  qed
qed

text \<open>
  Claim C2. For every sequence of upstream coin records, every token in the transformer's
  output has a non-empty contract address for the configured network, and the tokens
  follow the upstream order of the records that passed the address filter: the
  transformer returns a token list, every address in it is a non-empty string, and the
  tokens are, in order, the ones pushed for the records that passed the filter. Hence the
  same holds for the written list: in a run for a supported key that fetched these
  records and ended with exit code 0, the tokens of the written document carry, in
  order, the addresses of the records that carry one.
\<close>

theorem output_addresses_nonempty_in_upstream_order:
  assumes "list_all upstream_record items"
    and "platformSlug nc \<notin> set Object_prototype_keys"
  shows "(\<exists>tokens. transformCoinGeckoData (JArr items) (config_object nc) = Inr tokens
         \<and> (\<forall>token\<in>set tokens. \<exists>a. own_property token ''address'' = Some (JStr a) \<and> a \<noteq> [])
         \<and> list_all2 (pushed_for (config_object nc))
              (filter (passes_address_filter (config_object nc)) items) tokens)
   \<and> (js_get CHAIN_CONFIG (chainKey_of (argv2 w)) = Inr (config_object nc) \<longrightarrow>
        fst (fetchTokensFromCoinGecko (axios_get w) (JStr (platformSlug nc))) = JArr items \<longrightarrow>
        status (program w) = Exited 0 \<longrightarrow>
        (\<exists>document written.
           files (program w) (output_file w) = Some document
           \<and> js_get document ''tokens'' = Inr (JArr written)
           \<and> list_all2
               (\<lambda>item token. \<exists>a. spec_address (platformSlug nc) item = Some a \<and> a \<noteq> []
                  \<and> own_property token ''address'' = Some (JStr a))
               (filter (\<lambda>item. spec_address (platformSlug nc) item \<noteq> None) items)
               written))"
proof -
  have eq: "transformCoinGeckoData (JArr items) (config_object nc) = Inr (spec_transform nc items)"
    using transform_loop_records [OF assms, of "[]"]
    by (simp add: transformCoinGeckoData_def then_ok_Inr)
  then have "transform_loop (config_object nc) items [] = Inr (spec_transform nc items)"
    by (simp add: transformCoinGeckoData_def then_ok_Inr)
  from transform_loop_pushed [OF this]
  have order: "list_all2 (pushed_for (config_object nc))
      (filter (passes_address_filter (config_object nc)) items) (spec_transform nc items)"
    by simp
  from eq order spec_transform_addresses
  have first: "\<exists>tokens. transformCoinGeckoData (JArr items) (config_object nc) = Inr tokens
         \<and> (\<forall>token\<in>set tokens. \<exists>a. own_property token ''address'' = Some (JStr a) \<and> a \<noteq> [])
         \<and> list_all2 (pushed_for (config_object nc))
              (filter (passes_address_filter (config_object nc)) items) tokens"
    by blast
  have second: "\<exists>document written.
           files (program w) (output_file w) = Some document
           \<and> js_get document ''tokens'' = Inr (JArr written)
           \<and> list_all2
               (\<lambda>item token. \<exists>a. spec_address (platformSlug nc) item = Some a \<and> a \<noteq> []
                  \<and> own_property token ''address'' = Some (JStr a))
               (filter (\<lambda>item. spec_address (platformSlug nc) item \<noteq> None) items)
               written"
    if resolved: "js_get CHAIN_CONFIG (chainKey_of (argv2 w)) = Inr (config_object nc)"
      and fetched: "fst (fetchTokensFromCoinGecko (axios_get w) (JStr (platformSlug nc))) = JArr items"
      and exited: "status (program w) = Exited 0"
  proof -
    from program_exited_0 [OF resolved exited] eq fetched
    have "files (program w) (output_file w) =
        Some (envelope_document (chainKey_of (argv2 w)) nc (now2 w)
                (JSON_elems (spec_transform nc items)))"
      by auto
    with envelope_tokens written_spec_tokens show ?thesis by blast
  qed
  from first second show ?thesis by blast
qed

theorem output_addresses_nonempty_in_upstream_order_witness:
  "list_all upstream_record
     [JObj [(''id'', JStr ''weth''), (''symbol'', JStr ''weth''), (''name'', JStr ''WETH''),
            (''platforms'', JObj [(''binance-smart-chain'', JStr ''0x2170'')])],
      JObj [(''id'', JStr ''bitcoin''), (''symbol'', JStr ''btc''), (''name'', JStr ''Bitcoin''),
            (''platforms'', JObj [])],
      JObj [(''id'', JStr ''cake''), (''symbol'', JStr ''cake''), (''name'', JStr ''PancakeSwap''),
            (''platforms'', JObj [(''binance-smart-chain'', JStr ''0x0e09'')])]]
   \<and> ''binance-smart-chain'' \<notin> set Object_prototype_keys
   \<and> js_get CHAIN_CONFIG ''bsc'' = Inr (config_object
        \<lparr>networkId = 56, platformSlug = ''binance-smart-chain'', displayName = ''BSC Token List'', decimals = 18\<rparr>)
   \<and> status (program
        \<lparr>argv2 = Some ''bsc'',
         axios_get = constant_response (Resolved (JArr
           [JObj [(''id'', JStr ''weth''), (''symbol'', JStr ''weth''), (''name'', JStr ''WETH''),
                  (''platforms'', JObj [(''binance-smart-chain'', JStr ''0x2170'')])],
            JObj [(''id'', JStr ''bitcoin''), (''symbol'', JStr ''btc''), (''name'', JStr ''Bitcoin''),
                  (''platforms'', JObj [])],
            JObj [(''id'', JStr ''cake''), (''symbol'', JStr ''cake''), (''name'', JStr ''PancakeSwap''),
                  (''platforms'', JObj [(''binance-smart-chain'', JStr ''0x0e09'')])]])),
         now1 = ''2024-05-01T10:00:00.000Z'', now2 = ''2024-05-01T10:00:02.000Z'',
         disk = no_files, write_ok = every_file_writable\<rparr>) = Exited 0
   \<and> transformCoinGeckoData (JArr
     [JObj [(''id'', JStr ''weth''), (''symbol'', JStr ''weth''), (''name'', JStr ''WETH''),
            (''platforms'', JObj [(''binance-smart-chain'', JStr ''0x2170'')])],
      JObj [(''id'', JStr ''bitcoin''), (''symbol'', JStr ''btc''), (''name'', JStr ''Bitcoin''),
            (''platforms'', JObj [])],
      JObj [(''id'', JStr ''cake''), (''symbol'', JStr ''cake''), (''name'', JStr ''PancakeSwap''),
            (''platforms'', JObj [(''binance-smart-chain'', JStr ''0x0e09'')])]])
     (config_object \<lparr>networkId = 56, platformSlug = ''binance-smart-chain'', displayName = ''BSC Token List'', decimals = 18\<rparr>)
     = Inr
     [JObj [(''chainId'', JNum 56), (''address'', JStr ''0x2170''), (''name'', JStr ''WETH''),
            (''symbol'', JStr ''WETH''), (''decimals'', JNum 18), (''logoURI'', JStr [])],
      JObj [(''chainId'', JNum 56), (''address'', JStr ''0x0e09''), (''name'', JStr ''PancakeSwap''),
            (''symbol'', JStr ''CAKE''), (''decimals'', JNum 18), (''logoURI'', JStr [])]]
   \<and> list_all (\<lambda>token. \<exists>a. own_property token ''address'' = Some (JStr a) \<and> a \<noteq> [])
     [JObj [(''chainId'', JNum 56), (''address'', JStr ''0x2170''), (''name'', JStr ''WETH''),
            (''symbol'', JStr ''WETH''), (''decimals'', JNum 18), (''logoURI'', JStr [])],
      JObj [(''chainId'', JNum 56), (''address'', JStr ''0x0e09''), (''name'', JStr ''PancakeSwap''),
            (''symbol'', JStr ''CAKE''), (''decimals'', JNum 18), (''logoURI'', JStr [])]]
   \<and> (\<exists>document written.
        files (program
          \<lparr>argv2 = Some ''bsc'',
           axios_get = constant_response (Resolved (JArr
             [JObj [(''id'', JStr ''weth''), (''symbol'', JStr ''weth''), (''name'', JStr ''WETH''),
                    (''platforms'', JObj [(''binance-smart-chain'', JStr ''0x2170'')])],
              JObj [(''id'', JStr ''bitcoin''), (''symbol'', JStr ''btc''), (''name'', JStr ''Bitcoin''),
                    (''platforms'', JObj [])],
              JObj [(''id'', JStr ''cake''), (''symbol'', JStr ''cake''), (''name'', JStr ''PancakeSwap''),
                    (''platforms'', JObj [(''binance-smart-chain'', JStr ''0x0e09'')])]])),
           now1 = ''2024-05-01T10:00:00.000Z'', now2 = ''2024-05-01T10:00:02.000Z'',
           disk = no_files, write_ok = every_file_writable\<rparr>) ''bsc-tokenlist.json'' = Some document
        \<and> js_get document ''tokens'' = Inr (JArr written)
        \<and> length written = 2)"
proof -
  let ?items = "[JObj [(''id'', JStr ''weth''), (''symbol'', JStr ''weth''), (''name'', JStr ''WETH''),
            (''platforms'', JObj [(''binance-smart-chain'', JStr ''0x2170'')])],
      JObj [(''id'', JStr ''bitcoin''), (''symbol'', JStr ''btc''), (''name'', JStr ''Bitcoin''),
            (''platforms'', JObj [])],
      JObj [(''id'', JStr ''cake''), (''symbol'', JStr ''cake''), (''name'', JStr ''PancakeSwap''),
            (''platforms'', JObj [(''binance-smart-chain'', JStr ''0x0e09'')])]]"
  let ?nc = "\<lparr>networkId = 56, platformSlug = ''binance-smart-chain'', displayName = ''BSC Token List'', decimals = 18\<rparr>"
  let ?tokens = "[JObj [(''chainId'', JNum 56), (''address'', JStr ''0x2170''), (''name'', JStr ''WETH''),
            (''symbol'', JStr ''WETH''), (''decimals'', JNum 18), (''logoURI'', JStr [])],
      JObj [(''chainId'', JNum 56), (''address'', JStr ''0x0e09''), (''name'', JStr ''PancakeSwap''),
            (''symbol'', JStr ''CAKE''), (''decimals'', JNum 18), (''logoURI'', JStr [])]]"
  let ?w = "\<lparr>argv2 = Some ''bsc'', axios_get = constant_response (Resolved (JArr ?items)),
         now1 = ''2024-05-01T10:00:00.000Z'', now2 = ''2024-05-01T10:00:02.000Z'',
         disk = no_files, write_ok = every_file_writable\<rparr>"
  have records: "list_all upstream_record ?items" by simp
  have slug: "platformSlug ?nc \<notin> set Object_prototype_keys"
    by (simp add: Object_prototype_keys_def)
  have transformed: "transformCoinGeckoData (JArr ?items) (config_object ?nc) = Inr ?tokens"
    by code_simp
  have bsc: "js_get CHAIN_CONFIG ''bsc'' = Inr (config_object ?nc)"
    by (simp add: CHAIN_CONFIG_def js_get_JObj config_object_def)
  have resolved: "js_get CHAIN_CONFIG (chainKey_of (argv2 ?w)) = Inr (config_object ?nc)"
    using bsc by (simp add: chainKey_of_def)
  have fetched: "fst (fetchTokensFromCoinGecko (axios_get ?w) (JStr (platformSlug ?nc))) = JArr ?items"
    by (simp add: fetchTokensFromCoinGecko_def constant_response_def)
  have exited: "status (program ?w) = Exited 0" by code_simp
  have out: "output_file ?w = ''bsc-tokenlist.json''"
    by (simp add: output_file_def chainKey_of_def)
  have carriers: "length (filter (\<lambda>item. spec_address (platformSlug ?nc) item \<noteq> None) ?items) = 2"
    by (simp add: spec_address_def)
  note claim = output_addresses_nonempty_in_upstream_order [OF records slug, of ?w]
  from claim transformed
  have "\<forall>token\<in>set ?tokens. \<exists>a. own_property token ''address'' = Some (JStr a) \<and> a \<noteq> []"
    by auto
  then have addresses: "list_all (\<lambda>token. \<exists>a. own_property token ''address'' = Some (JStr a) \<and> a \<noteq> []) ?tokens"
    unfolding list_all_iff .
  from claim resolved fetched exited
  obtain document written where "files (program ?w) (output_file ?w) = Some document"
    and "js_get document ''tokens'' = Inr (JArr written)"
    and "list_all2
       (\<lambda>item token. \<exists>a. spec_address (platformSlug ?nc) item = Some a \<and> a \<noteq> []
          \<and> own_property token ''address'' = Some (JStr a))
       (filter (\<lambda>item. spec_address (platformSlug ?nc) item \<noteq> None) ?items) written"
    by blast
  with carriers out have "\<exists>document written.
      files (program ?w) ''bsc-tokenlist.json'' = Some document
      \<and> js_get document ''tokens'' = Inr (JArr written) \<and> length written = 2"
    by (auto dest: list_all2_lengthD)
  with records slug bsc exited transformed addresses show ?thesis by simp
qed

section \<open>Writing the list and reading it back\<close>

lemma spec_token_json_safe:
  assumes "spec_token nc item = Some token" and "own_property item ''name'' = Some (JStr n)"
  shows "json_safe token"
  using assms by (auto simp: spec_token_def spec_name_def split: option.splits)

text \<open>
  Claim C8, as the program has it. In a run for a supported key that ends with exit code
  0, on a sequence of upstream coin records in which every record that carries an
  address under the configured platform slug has a \<^verbatim>\<open>name\<close> that is a string, the
  tokens read back from the written file are the tokens the transformer returned for the
  same data: the same values, hence deep-equal.
\<close>

theorem written_tokens_equal_transformed_when_named:
  assumes resolved: "js_get CHAIN_CONFIG (chainKey_of (argv2 w)) = Inr (config_object nc)"
    and fetched: "fetchTokensFromCoinGecko (axios_get w) (JStr (platformSlug nc)) = (JArr items, errs)"
    and records: "list_all upstream_record items"
    and named: "\<forall>item\<in>set items. spec_address (platformSlug nc) item \<noteq> None \<longrightarrow>
        (\<exists>n. own_property item ''name'' = Some (JStr n))"
    and exited: "status (program w) = Exited 0"
  shows "\<exists>document parsed tokens.
     files (program w) (output_file w) = Some document
     \<and> js_get document ''tokens'' = Inr parsed
     \<and> transformCoinGeckoData (JArr items) (config_object nc) = Inr tokens
     \<and> parsed = JArr tokens
     \<and> deep_equal parsed (JArr tokens)"
proof -
  let ?tokens = "spec_transform nc items"
  have t: "transformCoinGeckoData (JArr items) (config_object nc) = Inr ?tokens"
    using transform_loop_records [OF records resolved_config_facts(2) [OF resolved], of "[]"]
    by (simp add: transformCoinGeckoData_def then_ok_Inr)
  from program_exited_0 [OF resolved exited] fetched t
  have f: "files (program w) (output_file w) =
      Some (envelope_document (chainKey_of (argv2 w)) nc (now2 w) (JSON_elems ?tokens))"
    by auto
  have "json_safe token" if "token \<in> set ?tokens" for token
  proof -
    from that obtain item where it: "item \<in> set items" and tok: "spec_token nc item = Some token"
      by (auto simp: spec_transform_def map_filter_def)
    from tok have "spec_address (platformSlug nc) item \<noteq> None"
      by (auto simp: spec_token_def split: option.splits)
    with named it obtain n where "own_property item ''name'' = Some (JStr n)" by blast
    from spec_token_json_safe [OF tok this] show ?thesis .
  qed
  then have all: "json_safe (JArr ?tokens)" by (simp add: all_json_safe_iff)
  from JSON_stringify_json [OF all] have same: "JSON_elems ?tokens = ?tokens" by simp
  from deep_equal_json [OF all] have "deep_equal (JArr ?tokens) (JArr ?tokens)" .
  with t f same envelope_tokens show ?thesis by auto
qed

theorem written_tokens_equal_transformed_when_named_witness:
  "js_get CHAIN_CONFIG ''base'' = Inr (config_object
      \<lparr>networkId = 8453, platformSlug = ''base'', displayName = ''Base Token List'', decimals = 18\<rparr>)
   \<and> list_all upstream_record
        [JObj [(''id'', JStr ''usd-coin''), (''symbol'', JStr ''usdc''), (''name'', JStr ''USD Coin''),
               (''platforms'', JObj [(''base'', JStr ''0x8335'')])],
         JObj [(''id'', JStr ''tether''), (''symbol'', JStr ''usdt''), (''name'', JStr ''Tether''),
               (''platforms'', JObj [(''ethereum'', JStr ''0xdac1'')])]]
   \<and> list_all (\<lambda>item. \<exists>n. own_property item ''name'' = Some (JStr n))
        [JObj [(''id'', JStr ''usd-coin''), (''symbol'', JStr ''usdc''), (''name'', JStr ''USD Coin''),
               (''platforms'', JObj [(''base'', JStr ''0x8335'')])],
         JObj [(''id'', JStr ''tether''), (''symbol'', JStr ''usdt''), (''name'', JStr ''Tether''),
               (''platforms'', JObj [(''ethereum'', JStr ''0xdac1'')])]]
   \<and> status (program
        \<lparr>argv2 = None,
         axios_get = constant_response (Resolved (JArr
           [JObj [(''id'', JStr ''usd-coin''), (''symbol'', JStr ''usdc''), (''name'', JStr ''USD Coin''),
                  (''platforms'', JObj [(''base'', JStr ''0x8335'')])],
            JObj [(''id'', JStr ''tether''), (''symbol'', JStr ''usdt''), (''name'', JStr ''Tether''),
                  (''platforms'', JObj [(''ethereum'', JStr ''0xdac1'')])]])),
         now1 = ''2024-05-01T10:00:00.000Z'', now2 = ''2024-05-01T10:00:02.000Z'',
         disk = no_files, write_ok = every_file_writable\<rparr>) = Exited 0
   \<and> transformCoinGeckoData (JArr
        [JObj [(''id'', JStr ''usd-coin''), (''symbol'', JStr ''usdc''), (''name'', JStr ''USD Coin''),
               (''platforms'', JObj [(''base'', JStr ''0x8335'')])],
         JObj [(''id'', JStr ''tether''), (''symbol'', JStr ''usdt''), (''name'', JStr ''Tether''),
               (''platforms'', JObj [(''ethereum'', JStr ''0xdac1'')])]])
        (config_object
          \<lparr>networkId = 8453, platformSlug = ''base'', displayName = ''Base Token List'', decimals = 18\<rparr>)
      = Inr [JObj [(''chainId'', JNum 8453), (''address'', JStr ''0x8335''), (''name'', JStr ''USD Coin''),
                   (''symbol'', JStr ''USDC''), (''decimals'', JNum 18), (''logoURI'', JStr [])]]
   \<and> (\<exists>document parsed.
        files (program
          \<lparr>argv2 = None,
           axios_get = constant_response (Resolved (JArr
             [JObj [(''id'', JStr ''usd-coin''), (''symbol'', JStr ''usdc''), (''name'', JStr ''USD Coin''),
                    (''platforms'', JObj [(''base'', JStr ''0x8335'')])],
              JObj [(''id'', JStr ''tether''), (''symbol'', JStr ''usdt''), (''name'', JStr ''Tether''),
                    (''platforms'', JObj [(''ethereum'', JStr ''0xdac1'')])]])),
           now1 = ''2024-05-01T10:00:00.000Z'', now2 = ''2024-05-01T10:00:02.000Z'',
           disk = no_files, write_ok = every_file_writable\<rparr>) ''base-tokenlist.json'' = Some document
        \<and> js_get document ''tokens'' = Inr parsed
        \<and> deep_equal parsed (JArr
             [JObj [(''chainId'', JNum 8453), (''address'', JStr ''0x8335''), (''name'', JStr ''USD Coin''),
                    (''symbol'', JStr ''USDC''), (''decimals'', JNum 18), (''logoURI'', JStr [])]]))"
proof -
  let ?items = "[JObj [(''id'', JStr ''usd-coin''), (''symbol'', JStr ''usdc''), (''name'', JStr ''USD Coin''),
               (''platforms'', JObj [(''base'', JStr ''0x8335'')])],
         JObj [(''id'', JStr ''tether''), (''symbol'', JStr ''usdt''), (''name'', JStr ''Tether''),
               (''platforms'', JObj [(''ethereum'', JStr ''0xdac1'')])]]"
  let ?nc = "\<lparr>networkId = 8453, platformSlug = ''base'', displayName = ''Base Token List'', decimals = 18\<rparr>"
  let ?w = "\<lparr>argv2 = None, axios_get = constant_response (Resolved (JArr ?items)),
         now1 = ''2024-05-01T10:00:00.000Z'', now2 = ''2024-05-01T10:00:02.000Z'',
         disk = no_files, write_ok = every_file_writable\<rparr>"
  let ?tokens = "[JObj [(''chainId'', JNum 8453), (''address'', JStr ''0x8335''), (''name'', JStr ''USD Coin''),
                   (''symbol'', JStr ''USDC''), (''decimals'', JNum 18), (''logoURI'', JStr [])]]"
  have key: "chainKey_of (argv2 ?w) = ''base''" by (simp add: chainKey_of_def)
  have base: "js_get CHAIN_CONFIG ''base'' = Inr (config_object ?nc)"
    by (simp add: CHAIN_CONFIG_def js_get_JObj config_object_def)
  then have resolved: "js_get CHAIN_CONFIG (chainKey_of (argv2 ?w)) = Inr (config_object ?nc)"
    unfolding key .
  have fetched: "fetchTokensFromCoinGecko (axios_get ?w) (JStr (platformSlug ?nc)) = (JArr ?items, [])"
    by (simp add: fetchTokensFromCoinGecko_def constant_response_def)
  have records: "list_all upstream_record ?items" by simp
  have names: "list_all (\<lambda>item. \<exists>n. own_property item ''name'' = Some (JStr n)) ?items" by simp
  then have named: "\<forall>item\<in>set ?items. spec_address (platformSlug ?nc) item \<noteq> None \<longrightarrow>
      (\<exists>n. own_property item ''name'' = Some (JStr n))"
    unfolding list_all_iff by blast
  have exited: "status (program ?w) = Exited 0" by code_simp
  have transformed: "transformCoinGeckoData (JArr ?items) (config_object ?nc) = Inr ?tokens"
    by code_simp
  have out: "output_file ?w = ''base-tokenlist.json''"
    by (simp add: output_file_def chainKey_of_def)
  from written_tokens_equal_transformed_when_named [OF resolved fetched records named exited]
  obtain document parsed tokens where "files (program ?w) (output_file ?w) = Some document"
    and "js_get document ''tokens'' = Inr parsed"
    and "transformCoinGeckoData (JArr ?items) (config_object ?nc) = Inr tokens"
    and "deep_equal parsed (JArr tokens)"
    by blast
  with transformed out have "\<exists>document parsed.
      files (program ?w) ''base-tokenlist.json'' = Some document
      \<and> js_get document ''tokens'' = Inr parsed \<and> deep_equal parsed (JArr ?tokens)"
    by auto
  with base records names exited transformed show ?thesis by blast
qed

text \<open>
  Claim C8 as stated, for every run, fails. For a record that carries an address and has
  no \<^verbatim>\<open>name\<close> the transformer's token has the property \<^verbatim>\<open>name\<close> with the value
  \<^verbatim>\<open>undefined\<close>; \<^verbatim>\<open>JSON.stringify\<close> leaves that property out, so the token read
  back has five keys where the transformer's has six.
\<close>

theorem nameless_token_does_not_round_trip:
  "fetchTokensFromCoinGecko
     (constant_response (Resolved (JArr
        [JObj [(''id'', JStr ''dai''), (''symbol'', JStr ''dai''),
               (''platforms'', JObj [(''base'', JStr ''0x50c5'')])]])))
     (JStr ''base'')
   = (JArr [JObj [(''id'', JStr ''dai''), (''symbol'', JStr ''dai''),
                  (''platforms'', JObj [(''base'', JStr ''0x50c5'')])]], [])
   \<and> transformCoinGeckoData
        (JArr [JObj [(''id'', JStr ''dai''), (''symbol'', JStr ''dai''),
                     (''platforms'', JObj [(''base'', JStr ''0x50c5'')])]])
        (config_object
          \<lparr>networkId = 8453, platformSlug = ''base'', displayName = ''Base Token List'', decimals = 18\<rparr>)
      = Inr [JObj [(''chainId'', JNum 8453), (''address'', JStr ''0x50c5''), (''name'', JUndefined),
                   (''symbol'', JStr ''DAI''), (''decimals'', JNum 18), (''logoURI'', JStr [])]]
   \<and> status (program
        \<lparr>argv2 = Some ''base'',
         axios_get = constant_response (Resolved (JArr
           [JObj [(''id'', JStr ''dai''), (''symbol'', JStr ''dai''),
                  (''platforms'', JObj [(''base'', JStr ''0x50c5'')])]])),
         now1 = ''2024-05-01T10:00:00.000Z'', now2 = ''2024-05-01T10:00:02.000Z'',
         disk = no_files, write_ok = every_file_writable\<rparr>) = Exited 0
   \<and> files (program
        \<lparr>argv2 = Some ''base'',
         axios_get = constant_response (Resolved (JArr
           [JObj [(''id'', JStr ''dai''), (''symbol'', JStr ''dai''),
                  (''platforms'', JObj [(''base'', JStr ''0x50c5'')])]])),
         now1 = ''2024-05-01T10:00:00.000Z'', now2 = ''2024-05-01T10:00:02.000Z'',
         disk = no_files, write_ok = every_file_writable\<rparr>) ''base-tokenlist.json''
      = Some (JObj
         [(''name'', JStr ''Base Token List''),
          (''logoURI'', JStr ''https://example.com/logo.png''),
          (''keywords'', JArr [JStr ''base'', JStr ''tokenlist'']),
          (''timestamp'', JStr ''2024-05-01T10:00:02.000Z''),
          (''version'', JObj [(''major'', JNum 1), (''minor'', JNum 0), (''patch'', JNum 0)]),
          (''tokens'', JArr
             [JObj [(''chainId'', JNum 8453), (''address'', JStr ''0x50c5''),
                    (''symbol'', JStr ''DAI''), (''decimals'', JNum 18), (''logoURI'', JStr [])]])])
   \<and> \<not> deep_equal
        (JArr [JObj [(''chainId'', JNum 8453), (''address'', JStr ''0x50c5''),
                     (''symbol'', JStr ''DAI''), (''decimals'', JNum 18), (''logoURI'', JStr [])]])
        (JArr [JObj [(''chainId'', JNum 8453), (''address'', JStr ''0x50c5''), (''name'', JUndefined),
                     (''symbol'', JStr ''DAI''), (''decimals'', JNum 18), (''logoURI'', JStr [])]])"
  by code_simp

section \<open>Two runs\<close>

lemma truthy_not_nullish: "truthy v \<Longrightarrow> \<not> nullish v"
  by (cases v) simp_all

lemma js_get_not_nullish: "\<not> nullish v \<Longrightarrow> \<exists>x. js_get v k = Inr x"
  by (simp add: js_get_def)

lemma js_get_CHAIN_CONFIG: "\<exists>chainCfg. js_get CHAIN_CONFIG key = Inr chainCfg"
  by (simp add: CHAIN_CONFIG_def js_get_JObj)

lemma program_unsupported:
  assumes "js_get CHAIN_CONFIG (chainKey_of (argv2 w)) = Inr chainCfg" and "\<not> truthy chainCfg"
  shows "program w =
     \<lparr>status = Exited 1, stderr = [unsupported_message (chainKey_of (argv2 w))], stdout = [],
      files = disk w\<rparr>"
  using assms by (simp add: program_def)

lemma program_truthy:
  assumes "js_get CHAIN_CONFIG (chainKey_of (argv2 w)) = Inr chainCfg" and "truthy chainCfg"
    and "js_get chainCfg ''name'' = Inr name"
    and "js_get chainCfg ''coingeckoPlatform'' = Inr platform"
  shows "program w =
     (case transformCoinGeckoData (fst (fetchTokensFromCoinGecko (axios_get w) platform)) chainCfg of
        Inl e \<Rightarrow> crashed w (snd (fetchTokensFromCoinGecko (axios_get w) platform)) e
      | Inr tokenItems \<Rightarrow>
          if write_ok w (output_file w)
          then \<lparr>status = Exited 0,
                stderr = snd (fetchTokensFromCoinGecko (axios_get w) platform),
                stdout = [done_message (chainKey_of (argv2 w)) (output_file w)],
                files = (disk w)(output_file w \<mapsto> JObj (JSON_props
                  [(''name'', name),
                   (''logoURI'', JStr ''https://example.com/logo.png''),
                   (''keywords'', JArr [JStr (chainKey_of (argv2 w)), JStr ''tokenlist'']),
                   (''timestamp'', JStr (now2 w)),
                   (''version'', JObj [(''major'', JNum 1), (''minor'', JNum 0), (''patch'', JNum 0)]),
                   (''tokens'', JArr tokenItems)]))\<rparr>
          else crashed w (snd (fetchTokensFromCoinGecko (axios_get w) platform)) WriteError)"
  using assms
  by (simp add: program_def buildTokenList_def createTokenListBase_def
        then_ok_Inr then_ok_def output_file_def Let_def
      split: prod.splits sum.splits)

lemma envelope_without_timestamp:
  "erase_timestamp (JObj (JSON_props
      [(''name'', name), (''logoURI'', logo), (''keywords'', keywords),
       (''timestamp'', JStr t), (''version'', version), (''tokens'', tokens)]))
   = erase_timestamp (JObj (JSON_props
      [(''name'', name), (''logoURI'', logo), (''keywords'', keywords),
       (''timestamp'', JStr t'), (''version'', version), (''tokens'', tokens)]))"
  by (simp split: option.splits)

lemma envelope_timestamp:
  "js_get (JObj (JSON_props
      [(''name'', name), (''logoURI'', JStr logo), (''keywords'', JArr keywords),
       (''timestamp'', JStr t), (''version'', version), (''tokens'', tokens)])) ''timestamp''
   = Inr (JStr t)"
  by (simp add: js_get_JObj split: option.splits)

text \<open>
  Claim C7. Two runs with the same network key and the same upstream data, at any two
  times and whatever the files present before, end the same way and write the same
  messages; neither touches a file other than the output file; and when the runs end
  with exit code 0 the two documents written differ only in the \<^verbatim>\<open>timestamp\<close> field,
  which holds the second clock reading of each run.
\<close>

theorem reruns_differ_only_in_timestamp:
  assumes "argv2 w' = argv2 w" and "axios_get w' = axios_get w" and "write_ok w' = write_ok w"
  shows "status (program w') = status (program w)
     \<and> stderr (program w') = stderr (program w)
     \<and> stdout (program w') = stdout (program w)
     \<and> (\<forall>f. f \<noteq> output_file w \<longrightarrow>
            files (program w) f = disk w f \<and> files (program w') f = disk w' f)
     \<and> (status (program w) = Exited 0 \<longrightarrow>
          (\<exists>document document'.
             files (program w) (output_file w) = Some document
             \<and> files (program w') (output_file w) = Some document'
             \<and> erase_timestamp document' = erase_timestamp document
             \<and> js_get document ''timestamp'' = Inr (JStr (now2 w))
             \<and> js_get document' ''timestamp'' = Inr (JStr (now2 w'))))"
proof -
  have out: "output_file w' = output_file w" using assms(1) by (simp add: output_file_def)
  obtain chainCfg where cfg: "js_get CHAIN_CONFIG (chainKey_of (argv2 w)) = Inr chainCfg"
    using js_get_CHAIN_CONFIG by blast
  then have cfg': "js_get CHAIN_CONFIG (chainKey_of (argv2 w')) = Inr chainCfg"
    using assms(1) by simp
  show ?thesis
  proof (cases "truthy chainCfg")
    case False
    from program_unsupported [OF cfg False] program_unsupported [OF cfg' False] assms(1)
    show ?thesis by simp
  next
    case True
    then have "\<not> nullish chainCfg" by (rule truthy_not_nullish)
    then obtain name platform where name: "js_get chainCfg ''name'' = Inr name"
      and platform: "js_get chainCfg ''coingeckoPlatform'' = Inr platform"
      using js_get_not_nullish by blast
    note run = program_truthy [OF cfg True name platform]
    note run' = program_truthy [OF cfg' True name platform]
    show ?thesis
    proof (cases "transformCoinGeckoData (fst (fetchTokensFromCoinGecko (axios_get w) platform)) chainCfg")
      case (Inl e)
      then show ?thesis unfolding run run' out using assms by (simp add: crashed_def)
    next
      case (Inr tokenItems)
      show ?thesis
      proof (cases "write_ok w (output_file w)")
        case False
        with Inr show ?thesis unfolding run run' out using assms by (simp add: crashed_def)
      next
        case True
        let ?document = "\<lambda>t. JObj (JSON_props
                  [(''name'', name),
                   (''logoURI'', JStr ''https://example.com/logo.png''),
                   (''keywords'', JArr [JStr (chainKey_of (argv2 w)), JStr ''tokenlist'']),
                   (''timestamp'', JStr t),
                   (''version'', JObj [(''major'', JNum 1), (''minor'', JNum 0), (''patch'', JNum 0)]),
                   (''tokens'', JArr tokenItems)])"
        have rest: "status (program w') = status (program w)
            \<and> stderr (program w') = stderr (program w)
            \<and> stdout (program w') = stdout (program w)
            \<and> (\<forall>f. f \<noteq> output_file w \<longrightarrow>
                  files (program w) f = disk w f \<and> files (program w') f = disk w' f)"
          unfolding run run' out using Inr True assms by simp
        have written: "files (program w) (output_file w) = Some (?document (now2 w))"
          unfolding run using Inr True by simp
        have written': "files (program w') (output_file w) = Some (?document (now2 w'))"
          unfolding run' out using Inr True assms by simp
        have same: "erase_timestamp (?document (now2 w')) = erase_timestamp (?document (now2 w))"
          by (rule envelope_without_timestamp)
        have stamp: "js_get (?document (now2 w)) ''timestamp'' = Inr (JStr (now2 w))"
          "js_get (?document (now2 w')) ''timestamp'' = Inr (JStr (now2 w'))"
          by (rule envelope_timestamp)+
        from rest written written' same stamp show ?thesis by blast
      qed
    qed
  qed
qed

text \<open>
  A second run a month later, which finds a stale output file and overwrites it.
\<close>

theorem reruns_differ_only_in_timestamp_witness:
  "status (program
      \<lparr>argv2 = Some ''base'',
       axios_get = constant_response (Resolved (JArr
         [JObj [(''id'', JStr ''dai''), (''symbol'', JStr ''dai''), (''name'', JStr ''Dai''),
                (''platforms'', JObj [(''base'', JStr ''0x50c5'')])]])),
       now1 = ''2024-05-01T10:00:00.000Z'', now2 = ''2024-05-01T10:00:02.000Z'',
       disk = no_files, write_ok = every_file_writable\<rparr>) = Exited 0
   \<and> status (program
      \<lparr>argv2 = Some ''base'',
       axios_get = constant_response (Resolved (JArr
         [JObj [(''id'', JStr ''dai''), (''symbol'', JStr ''dai''), (''name'', JStr ''Dai''),
                (''platforms'', JObj [(''base'', JStr ''0x50c5'')])]])),
       now1 = ''2024-06-09T23:30:00.000Z'', now2 = ''2024-06-09T23:30:05.000Z'',
       disk = no_files(''base-tokenlist.json'' \<mapsto> JNull), write_ok = every_file_writable\<rparr>) = Exited 0
   \<and> (\<exists>document document'.
        files (program
          \<lparr>argv2 = Some ''base'',
           axios_get = constant_response (Resolved (JArr
             [JObj [(''id'', JStr ''dai''), (''symbol'', JStr ''dai''), (''name'', JStr ''Dai''),
                    (''platforms'', JObj [(''base'', JStr ''0x50c5'')])]])),
           now1 = ''2024-05-01T10:00:00.000Z'', now2 = ''2024-05-01T10:00:02.000Z'',
           disk = no_files, write_ok = every_file_writable\<rparr>) ''base-tokenlist.json'' = Some document
        \<and> files (program
          \<lparr>argv2 = Some ''base'',
           axios_get = constant_response (Resolved (JArr
             [JObj [(''id'', JStr ''dai''), (''symbol'', JStr ''dai''), (''name'', JStr ''Dai''),
                    (''platforms'', JObj [(''base'', JStr ''0x50c5'')])]])),
           now1 = ''2024-06-09T23:30:00.000Z'', now2 = ''2024-06-09T23:30:05.000Z'',
           disk = no_files(''base-tokenlist.json'' \<mapsto> JNull), write_ok = every_file_writable\<rparr>)
            ''base-tokenlist.json'' = Some document'
        \<and> erase_timestamp document' = erase_timestamp document
        \<and> js_get document ''timestamp'' = Inr (JStr ''2024-05-01T10:00:02.000Z'')
        \<and> js_get document' ''timestamp'' = Inr (JStr ''2024-06-09T23:30:05.000Z''))"
proof -
  let ?get = "constant_response (Resolved (JArr
         [JObj [(''id'', JStr ''dai''), (''symbol'', JStr ''dai''), (''name'', JStr ''Dai''),
                (''platforms'', JObj [(''base'', JStr ''0x50c5'')])]]))"
  let ?w = "\<lparr>argv2 = Some ''base'', axios_get = ?get,
       now1 = ''2024-05-01T10:00:00.000Z'', now2 = ''2024-05-01T10:00:02.000Z'',
       disk = no_files, write_ok = every_file_writable\<rparr>"
  let ?w' = "\<lparr>argv2 = Some ''base'', axios_get = ?get,
       now1 = ''2024-06-09T23:30:00.000Z'', now2 = ''2024-06-09T23:30:05.000Z'',
       disk = no_files(''base-tokenlist.json'' \<mapsto> JNull), write_ok = every_file_writable\<rparr>"
  have first: "status (program ?w) = Exited 0" by code_simp
  have out: "output_file ?w = ''base-tokenlist.json''"
    by (simp add: output_file_def chainKey_of_def)
  have same: "argv2 ?w' = argv2 ?w" "axios_get ?w' = axios_get ?w" "write_ok ?w' = write_ok ?w"
    by simp_all
  note rerun = reruns_differ_only_in_timestamp [OF same]
  from rerun first have second: "status (program ?w') = Exited 0" by simp
  from rerun first have "\<exists>document document'.
        files (program ?w) (output_file ?w) = Some document
        \<and> files (program ?w') (output_file ?w) = Some document'
        \<and> erase_timestamp document' = erase_timestamp document
        \<and> js_get document ''timestamp'' = Inr (JStr (now2 ?w))
        \<and> js_get document' ''timestamp'' = Inr (JStr (now2 ?w'))"
    by blast
  then have "\<exists>document document'.
        files (program ?w) ''base-tokenlist.json'' = Some document
        \<and> files (program ?w') ''base-tokenlist.json'' = Some document'
        \<and> erase_timestamp document' = erase_timestamp document
        \<and> js_get document ''timestamp'' = Inr (JStr ''2024-05-01T10:00:02.000Z'')
        \<and> js_get document' ''timestamp'' = Inr (JStr ''2024-06-09T23:30:05.000Z'')"
    unfolding out by simp
  with first second show ?thesis by blast
qed

section \<open>Unsupported network keys\<close>

text \<open>
  A key that is neither in the table nor a name that objects inherit is reported, the
  process exits with code 1 and no file is touched.
\<close>

lemma unknown_key_exits_1:
  assumes "chainKey_of (argv2 w) \<notin> set supported_keys"
    and "chainKey_of (argv2 w) \<notin> set Object_prototype_keys"
  shows "program w =
     \<lparr>status = Exited 1, stderr = [unsupported_message (chainKey_of (argv2 w))], stdout = [],
      files = disk w\<rparr>"
proof -
  from assms have "js_get CHAIN_CONFIG (chainKey_of (argv2 w)) = Inr JUndefined"
    by (auto simp: supported_keys_def CHAIN_CONFIG_def js_get_JObj)
  from program_unsupported [OF this] show ?thesis by simp
qed

text \<open>
  Claim C3 says that every key outside the table is reported, with exit code 1 and no
  output file. The check \<^verbatim>\<open>!CHAIN_CONFIG[chainKey]\<close> does not do that for a key that
  the table inherits from \<^verbatim>\<open>Object.prototype\<close>: for \<^verbatim>\<open>constructor\<close> the lookup
  finds the function \<^verbatim>\<open>Object\<close>, nothing is reported, and the run writes
  \<^verbatim>\<open>constructor-tokenlist.json\<close> and ends with exit code 0.
\<close>

theorem inherited_key_passes_the_check:
  "''constructor'' \<notin> set supported_keys
   \<and> js_get CHAIN_CONFIG ''constructor'' = Inr (JBuiltin ''constructor'')
   \<and> status (program
        \<lparr>argv2 = Some ''constructor'',
         axios_get = constant_response (Resolved (JArr
           [JObj [(''id'', JStr ''bitcoin''), (''symbol'', JStr ''btc''), (''name'', JStr ''Bitcoin'')]])),
         now1 = ''2024-05-01T10:00:00.000Z'', now2 = ''2024-05-01T10:00:02.000Z'',
         disk = no_files, write_ok = every_file_writable\<rparr>) = Exited 0
   \<and> stderr (program
        \<lparr>argv2 = Some ''constructor'',
         axios_get = constant_response (Resolved (JArr
           [JObj [(''id'', JStr ''bitcoin''), (''symbol'', JStr ''btc''), (''name'', JStr ''Bitcoin'')]])),
         now1 = ''2024-05-01T10:00:00.000Z'', now2 = ''2024-05-01T10:00:02.000Z'',
         disk = no_files, write_ok = every_file_writable\<rparr>) = []
   \<and> files (program
        \<lparr>argv2 = Some ''constructor'',
         axios_get = constant_response (Resolved (JArr
           [JObj [(''id'', JStr ''bitcoin''), (''symbol'', JStr ''btc''), (''name'', JStr ''Bitcoin'')]])),
         now1 = ''2024-05-01T10:00:00.000Z'', now2 = ''2024-05-01T10:00:02.000Z'',
         disk = no_files, write_ok = every_file_writable\<rparr>) ''constructor-tokenlist.json''
      = Some (JObj
         [(''name'', JStr ''Object''),
          (''logoURI'', JStr ''https://example.com/logo.png''),
          (''keywords'', JArr [JStr ''constructor'', JStr ''tokenlist'']),
          (''timestamp'', JStr ''2024-05-01T10:00:02.000Z''),
          (''version'', JObj [(''major'', JNum 1), (''minor'', JNum 0), (''patch'', JNum 0)]),
          (''tokens'', JArr [])])"
  by code_simp

end
